theory Spec2Isabelle
  imports
    Complex_Main
    "HOL-Library.AList"
    "HOL-Library.Sublist"
    "HOL-Library.Multiset"
    "HOL-Library.Char_ord"
    "HOL-Library.List_Lexorder"
    "HOL-Library.Option_ord"
begin

section \<open>ETF holdings tracker: data frames, the holdings store, the queries\<close>

text \<open>
  The development embeds \<^verbatim>\<open>tracker.py\<close> and \<^verbatim>\<open>query_helper.py\<close>.
  Both programs are glue around pandas and SQLite, so the embedding writes out the
  documented behaviour of the library calls the source makes, one definition per call,
  and composes them in the order of the source lines.

  Conventions.
  \<^item> A 64-bit float is read as a \<open>real\<close> (rounding and the infinities are not
    modelled); NaN, None and SQL NULL are one value (\<open>Missing\<close> in a data frame,
    \<open>None\<close> in a stored row).
  \<^item> The coercion of a text cell to a number (what \<^verbatim>\<open>pd.to_numeric\<close> does with
    a string) is a parameter \<open>parse\<close> of the model; so are the conversions SQLite
    applies when a value lands in a column of another type (\<open>affinity\<close>).
  \<^item> The clock (\<^verbatim>\<open>datetime.now()\<close>), the network (\<^verbatim>\<open>pd.read_csv\<close> on a URL)
    and engine failures during a write are inputs of the model.
  \<^item> Status lines printed by the source are returned as values where a property
    speaks about them, and left out otherwise; the glyph that starts a status line is
    not part of the model.
\<close>

subsection \<open>Exceptions\<close>

datatype exn =
    KeyError
  | TransportError
  | ParserError
  | IntegrityError
  | OperationalError

subsection \<open>Data frames\<close>

datatype cell = Missing | Num real | Str string

type_synonym row = "(string \<times> cell) list"

record dataframe =
  columns :: "string list"
  rows :: "row list"

text \<open>\<^verbatim>\<open>len(df)\<close>.\<close>

definition len :: "dataframe \<Rightarrow> nat" where
  "len df = length (rows df)"

text \<open>The cell of a row under a column label (the first column of that label).\<close>

definition cell_at :: "row \<Rightarrow> string \<Rightarrow> cell" where
  "cell_at r k = (case map_of r k of None \<Rightarrow> Missing | Some c \<Rightarrow> c)"

text \<open>
  \<^verbatim>\<open>pd.to_numeric(_, errors="coerce")\<close> on one value: a number stays, a missing
  value stays missing, text is parsed and becomes missing when it is no numeral.
\<close>

definition to_numeric :: "(string \<Rightarrow> real option) \<Rightarrow> cell \<Rightarrow> cell" where
  "to_numeric parse c =
     (case c of
        Missing \<Rightarrow> Missing
      | Num x \<Rightarrow> Num x
      | Str s \<Rightarrow> (case parse s of None \<Rightarrow> Missing | Some x \<Rightarrow> Num x))"

text \<open>
  \<^verbatim>\<open>df.get(key, default)\<close> gives the column when the label exists and the default
  otherwise; \<^verbatim>\<open>pd.to_numeric\<close> and \<^verbatim>\<open>!= 0\<close> work on a column element by
  element and on a scalar as a scalar.
\<close>

datatype 'a series = Series "'a list" | Scalar 'a

definition df_get :: "dataframe \<Rightarrow> string \<Rightarrow> cell \<Rightarrow> cell series" where
  "df_get df key dflt =
     (if key \<in> set (columns df) then Series (map (\<lambda>r. cell_at r key) (rows df)) else Scalar dflt)"

fun to_numeric_series :: "(string \<Rightarrow> real option) \<Rightarrow> cell series \<Rightarrow> cell series" where
  "to_numeric_series parse (Series cs) = Series (map (to_numeric parse) cs)"
| "to_numeric_series parse (Scalar c) = Scalar (to_numeric parse c)"

text \<open>\<^verbatim>\<open>x != 0\<close> on floats: true for every number but zero, and true for NaN.\<close>

definition ne_zero :: "cell \<Rightarrow> bool" where
  "ne_zero c = (c \<noteq> Num 0)"

fun ne_zero_series :: "cell series \<Rightarrow> bool series" where
  "ne_zero_series (Series cs) = Series (map ne_zero cs)"
| "ne_zero_series (Scalar c) = Scalar (ne_zero c)"

text \<open>
  \<^verbatim>\<open>df[key]\<close> with a boolean column keeps the rows where it is true; with a single
  boolean it is a column lookup under the label \<^verbatim>\<open>False\<close> or \<^verbatim>\<open>True\<close>, which
  no table read from a CSV header has: KeyError.
\<close>

fun df_getitem_mask :: "dataframe \<Rightarrow> bool series \<Rightarrow> exn + dataframe" where
  "df_getitem_mask df (Series bs) =
     Inr (df\<lparr>rows := map snd (filter fst (zip bs (rows df)))\<rparr>)"
| "df_getitem_mask df (Scalar b) = Inl KeyError"

definition head :: "nat \<Rightarrow> dataframe \<Rightarrow> dataframe" where
  "head n df = df\<lparr>rows := take n (rows df)\<rparr>"

text \<open>
  \<^verbatim>\<open>df[k] = ...\<close>: an existing column is overwritten in place, a new one is added
  on the right. The new value of a row is computed from that row.
\<close>

definition df_setitem :: "dataframe \<Rightarrow> string \<Rightarrow> (row \<Rightarrow> cell) \<Rightarrow> dataframe" where
  "df_setitem df k f =
     \<lparr>columns = (if k \<in> set (columns df) then columns df else columns df @ [k]),
      rows = map (\<lambda>r. AList.update k (f r) r) (rows df)\<rparr>"

definition numeric_columns :: "(string \<times> string) list" where
  "numeric_columns =
     [(''Weight (%)'', ''weight_pct''),
      (''YTM (%)'', ''ytm_pct''),
      (''Market Value'', ''market_value''),
      (''Notional Value'', ''notional_value''),
      (''Shares'', ''shares''),
      (''Price'', ''price'')]"

text \<open>One turn of the loop over \<^verbatim>\<open>numeric_columns.items()\<close>.\<close>

definition convert_numeric ::
  "(string \<Rightarrow> real option) \<Rightarrow> dataframe \<Rightarrow> string \<times> string \<Rightarrow> dataframe" where
  "convert_numeric parse df p =
     (case p of (orig_col, new_col) \<Rightarrow>
        if orig_col \<in> set (columns df)
        then df_setitem df new_col (\<lambda>r. to_numeric parse (cell_at r orig_col))
        else df)"

definition column_mapping :: "(string \<times> string) list" where
  "column_mapping =
     [(''Ticker'', ''ticker''),
      (''Name'', ''name''),
      (''Location'', ''location''),
      (''Sector'', ''sector''),
      (''Maturity'', ''maturity'')]"

definition rename_label :: "string \<Rightarrow> string" where
  "rename_label k = (case map_of column_mapping k of None \<Rightarrow> k | Some k' \<Rightarrow> k')"

definition rename :: "dataframe \<Rightarrow> dataframe" where
  "rename df =
     \<lparr>columns = map rename_label (columns df),
      rows = map (map (\<lambda>(k, v). (rename_label k, v))) (rows df)\<rparr>"

definition canonical_columns :: "string list" where
  "canonical_columns =
     [''etf_code'', ''date_of_pull'', ''ticker'', ''name'', ''location'',
      ''sector'', ''maturity'', ''weight_pct'', ''ytm_pct'', ''market_value'',
      ''notional_value'', ''shares'', ''price'']"

text \<open>\<^verbatim>\<open>df[labels]\<close>: the columns under the labels, in the order of the labels.\<close>

definition project_row :: "string list \<Rightarrow> row \<Rightarrow> row" where
  "project_row ks r = concat (map (\<lambda>k. filter (\<lambda>p. fst p = k) r) ks)"

definition df_getitem_list :: "dataframe \<Rightarrow> string list \<Rightarrow> dataframe" where
  "df_getitem_list df ks =
     \<lparr>columns = concat (map (\<lambda>k. filter (\<lambda>c. c = k) (columns df)) ks),
      rows = map (project_row ks) (rows df)\<rparr>"

text \<open>
  \<^verbatim>\<open>df.dropna(thresh=t)\<close> keeps the rows with at least \<open>t\<close> values that are not
  missing, counted over all columns of the frame.
\<close>

definition notna_count :: "row \<Rightarrow> nat" where
  "notna_count r = length (filter (\<lambda>p. snd p \<noteq> Missing) r)"

definition dropna :: "real \<Rightarrow> dataframe \<Rightarrow> dataframe" where
  "dropna thresh df = df\<lparr>rows := filter (\<lambda>r. thresh \<le> real (notna_count r)) (rows df)\<rparr>"

subsection \<open>The source registry\<close>

record etf_config =
  cfg_name :: string
  cfg_url :: string
  cfg_header_row :: nat

definition ETF_CONFIG :: "(string \<times> etf_config) list" where
  "ETF_CONFIG =
     [(''CEMBI'',
        \<lparr>cfg_name = ''iShares Emerging Markets Corporate Bond ETF'',
         cfg_url = ''https://www.ishares.com/us/products/239525/ishares-emerging-markets-corporate-bond-etf/1467271812596.ajax?fileType=csv&fileName=CEMB_holdings&dataType=fund'',
         cfg_header_row = 9\<rparr>),
      (''EMBI'',
        \<lparr>cfg_name = ''iShares J.P. Morgan USD Emerging Markets Bond ETF'',
         cfg_url = ''https://www.ishares.com/us/products/239572/ishares-jp-morgan-usd-emerging-markets-bond-etf/1467271812596.ajax?fileType=csv&fileName=EMB_holdings&dataType=fund'',
         cfg_header_row = 9\<rparr>),
      (''GBI'',
        \<lparr>cfg_name = ''iShares Emerging Markets Local Currency Bond ETF'',
         cfg_url = ''https://www.ishares.com/us/products/239528/ishares-emerging-markets-local-currency-bond-etf/1467271812596.ajax?fileType=csv&fileName=LEMB_holdings&dataType=fund'',
         cfg_header_row = 9\<rparr>),
      (''EMHY'',
        \<lparr>cfg_name = ''iShares Emerging Markets High Yield Bond ETF'',
         cfg_url = ''https://www.ishares.com/us/products/239527/ishares-emerging-markets-high-yield-bond-etf/1467271812596.ajax?fileType=csv&fileName=EMHY_holdings&dataType=fund'',
         cfg_header_row = 9\<rparr>)]"

subsection \<open>The record normalizer: \<^verbatim>\<open>fetch_etf_data\<close>\<close>

text \<open>
  \<open>read_csv\<close> is the network: given the URL and the header offset it answers with a
  table or with the exception \<^verbatim>\<open>pd.read_csv\<close> raised. \<open>today\<close> is the date
  \<^verbatim>\<open>datetime.now().strftime('%Y-%m-%d')\<close> gives when the rows are stamped.

  \<open>clean\<close> is the body of the \<^verbatim>\<open>try\<close> block from the weight filter to the
  projection on the canonical columns; \<open>fetch_etf_data\<close> adds the reading before it,
  the \<^verbatim>\<open>dropna\<close> after it and the \<^verbatim>\<open>except Exception: return None\<close> around it.
\<close>

definition clean ::
  "(string \<Rightarrow> real option) \<Rightarrow> string \<Rightarrow> string \<Rightarrow> dataframe \<Rightarrow> exn + dataframe" where
  "clean parse today code df0 =
     (case df_getitem_mask df0
             (ne_zero_series (to_numeric_series parse (df_get df0 ''Weight (%)'' (Num 0)))) of
        Inl e \<Rightarrow> Inl e
      | Inr df1 \<Rightarrow>
          let df2 = head 1000 df1;
              df3 = foldl (convert_numeric parse) df2 numeric_columns;
              df4 = rename df3;
              df5 = df_setitem df4 ''etf_code'' (\<lambda>r. Str code);
              df6 = df_setitem df5 ''date_of_pull'' (\<lambda>r. Str today);
              columns_to_keep = filter (\<lambda>col. col \<in> set (columns df6)) canonical_columns
          in Inr (df_getitem_list df6 columns_to_keep))"

definition fetch_etf_data ::
  "(string \<Rightarrow> real option) \<Rightarrow> (string \<Rightarrow> nat \<Rightarrow> exn + dataframe) \<Rightarrow> string \<Rightarrow>
   string \<Rightarrow> etf_config \<Rightarrow> dataframe option" where
  "fetch_etf_data parse read_csv today code config =
     (case read_csv (cfg_url config) (cfg_header_row config) of
        Inl e \<Rightarrow> None
      | Inr df0 \<Rightarrow>
          (case clean parse today code df0 of
             Inl e \<Rightarrow> None
           | Inr df \<Rightarrow> Some (dropna (real (length (columns df)) * (1 / 2)) df)))"

subsection \<open>The holdings table\<close>

text \<open>
  A stored row has the thirteen columns the tracker writes. The surrogate key \<^verbatim>\<open>id\<close>
  and \<^verbatim>\<open>created_at\<close> are filled in by the engine and read by no function below;
  they are left out, and the table is the list of its rows in insertion order.
\<close>

record holding =
  etf_code :: "string option"
  date_of_pull :: "string option"
  ticker :: "string option"
  name :: "string option"
  location :: "string option"
  sector :: "string option"
  maturity :: "string option"
  weight_pct :: "real option"
  ytm_pct :: "real option"
  market_value :: "real option"
  notional_value :: "real option"
  shares :: "real option"
  price :: "real option"

text \<open>
  The process state: the table, and the number of connections that were opened by
  \<^verbatim>\<open>sqlite3.connect\<close> and not yet closed by \<^verbatim>\<open>conn.close()\<close>.
\<close>

record world =
  holdings :: "holding list"
  open_connections :: nat

definition connect :: "world \<Rightarrow> world" where
  "connect w = w\<lparr>open_connections := Suc (open_connections w)\<rparr>"

definition close :: "world \<Rightarrow> world" where
  "close w = w\<lparr>open_connections := open_connections w - 1\<rparr>"

text \<open>
  Column affinity. A number bound to a TEXT column is stored as text (\<open>as_text\<close>); a
  text bound to a REAL column is stored as a number when it is a numeral (\<open>as_real\<close>).
  Text that is no numeral stays text in SQLite; the typed row of the model has no place
  for it and holds NULL there. \<open>fetch_etf_data\<close> hands over such a cell only when the
  feed header itself uses one of the canonical numeric labels.
\<close>

record affinity =
  as_text :: "real \<Rightarrow> string"
  as_real :: "string \<Rightarrow> real option"

definition sql_text :: "affinity \<Rightarrow> cell \<Rightarrow> string option" where
  "sql_text af c =
     (case c of Missing \<Rightarrow> None | Num x \<Rightarrow> Some (as_text af x) | Str s \<Rightarrow> Some s)"

definition sql_real :: "affinity \<Rightarrow> cell \<Rightarrow> real option" where
  "sql_real af c =
     (case c of Missing \<Rightarrow> None | Num x \<Rightarrow> Some x | Str s \<Rightarrow> as_real af s)"

text \<open>
  The values \<^verbatim>\<open>DataFrame.to_sql\<close> binds for one row of the frame: a column the
  frame does not have is not named in the INSERT and gets its default, NULL.
\<close>

definition bind_row :: "affinity \<Rightarrow> row \<Rightarrow> holding" where
  "bind_row af r =
     \<lparr>etf_code = sql_text af (cell_at r ''etf_code''),
      date_of_pull = sql_text af (cell_at r ''date_of_pull''),
      ticker = sql_text af (cell_at r ''ticker''),
      name = sql_text af (cell_at r ''name''),
      location = sql_text af (cell_at r ''location''),
      sector = sql_text af (cell_at r ''sector''),
      maturity = sql_text af (cell_at r ''maturity''),
      weight_pct = sql_real af (cell_at r ''weight_pct''),
      ytm_pct = sql_real af (cell_at r ''ytm_pct''),
      market_value = sql_real af (cell_at r ''market_value''),
      notional_value = sql_real af (cell_at r ''notional_value''),
      shares = sql_real af (cell_at r ''shares''),
      price = sql_real af (cell_at r ''price'')\<rparr>"

text \<open>
  \<^verbatim>\<open>UNIQUE(etf_code, date_of_pull, ticker, name)\<close>: two rows clash when they agree
  on the four columns and none of the four is NULL. SQL compares NULL as different from
  everything, NULL included, so a row with a NULL ticker or name clashes with no row.
\<close>

definition unique_clash :: "holding \<Rightarrow> holding \<Rightarrow> bool" where
  "unique_clash a b \<longleftrightarrow>
     etf_code a \<noteq> None \<and> date_of_pull a \<noteq> None \<and> ticker a \<noteq> None \<and> name a \<noteq> None \<and>
     etf_code a = etf_code b \<and> date_of_pull a = date_of_pull b \<and>
     ticker a = ticker b \<and> name a = name b"

text \<open>
  One multi-row INSERT (\<^verbatim>\<open>method='multi'\<close>, no chunk size): the rows go in one
  after the other, each checked against the table and the rows before it; the first
  violation of \<^verbatim>\<open>NOT NULL\<close> or \<^verbatim>\<open>UNIQUE\<close> aborts the statement, and the table
  is the one before the statement.
\<close>

fun insert_rows :: "holding list \<Rightarrow> holding list \<Rightarrow> exn + holding list" where
  "insert_rows tbl [] = Inr tbl"
| "insert_rows tbl (h # hs) =
     (if etf_code h = None \<or> date_of_pull h = None then Inl IntegrityError
      else if list_ex (\<lambda>s. unique_clash s h) tbl then Inl IntegrityError
      else insert_rows (tbl @ [h]) hs)"

text \<open>
  \<^verbatim>\<open>df.to_sql('holdings', conn, if_exists='append', index=False, method='multi')\<close>.
  \<open>fault\<close> says that the engine fails for a reason of its own (locked file, full disk,
  too many bound variables). A label that is no column of the table is an
  OperationalError as well.
\<close>

definition to_sql :: "affinity \<Rightarrow> bool \<Rightarrow> dataframe \<Rightarrow> holding list \<Rightarrow> exn + holding list" where
  "to_sql af fault df tbl =
     (if fault then Inl OperationalError
      else if \<not> set (columns df) \<subseteq> set canonical_columns then Inl OperationalError
      else insert_rows tbl (map (bind_row af) (rows df)))"

subsection \<open>Store operations of \<^verbatim>\<open>tracker.py\<close>\<close>

text \<open>\<^verbatim>\<open>CREATE TABLE IF NOT EXISTS\<close> and the four indexes leave the rows alone.\<close>

definition init_database :: "world \<Rightarrow> world" where
  "init_database w = close (connect w)"

definition check_data_exists :: "string \<Rightarrow> string \<Rightarrow> world \<Rightarrow> bool \<times> world" where
  "check_data_exists code date_str w =
     (let w1 = connect w;
          count = length (filter (\<lambda>h. etf_code h = Some code \<and> date_of_pull h = Some date_str)
                            (holdings w1))
      in (count > 0, close w1))"

text \<open>
  The status line of \<^verbatim>\<open>save_to_database\<close> is returned next to its boolean. The
  \<^verbatim>\<open>conn.close()\<close> of the source stands inside the \<^verbatim>\<open>try\<close> block after
  \<^verbatim>\<open>to_sql\<close>; the two handlers return without it.
\<close>

datatype save_report = Saved nat | AlreadyExists | ErrorSaving exn

definition save_to_database ::
  "affinity \<Rightarrow> bool \<Rightarrow> dataframe \<Rightarrow> string \<Rightarrow> world \<Rightarrow> (bool \<times> save_report) \<times> world" where
  "save_to_database af fault df code w =
     (let w1 = connect w in
      case to_sql af fault df (holdings w1) of
        Inr tbl \<Rightarrow> ((True, Saved (len df)), close (w1\<lparr>holdings := tbl\<rparr>))
      | Inl e \<Rightarrow>
          if e = IntegrityError then ((False, AlreadyExists), w1)
          else ((False, ErrorSaving e), w1))"

subsection \<open>The orchestrator: \<^verbatim>\<open>run_tracker\<close>\<close>

record results =
  success :: "string list"
  failed :: "string list"
  skipped :: "string list"

text \<open>
  What the outside world answers during one turn of the loop: the date at the existence
  check, the network, the date at the stamping of the rows, and whether the engine
  fails during the write.
\<close>

record turn =
  today_check :: string
  network :: "string \<Rightarrow> nat \<Rightarrow> exn + dataframe"
  today_stamp :: string
  write_fault :: bool

definition track ::
  "(string \<Rightarrow> real option) \<Rightarrow> affinity \<Rightarrow> turn \<Rightarrow> string \<Rightarrow> results \<times> world \<Rightarrow> results \<times> world" where
  "track parse af t code s =
     (case s of (res, w) \<Rightarrow>
        (case map_of ETF_CONFIG code of
           None \<Rightarrow> (res\<lparr>failed := failed res @ [code]\<rparr>, w)
         | Some config \<Rightarrow>
             (case check_data_exists code (today_check t) w of
                (True, w1) \<Rightarrow> (res\<lparr>skipped := skipped res @ [code]\<rparr>, w1)
              | (False, w1) \<Rightarrow>
                  (case fetch_etf_data parse (network t) (today_stamp t) code config of
                     None \<Rightarrow> (res\<lparr>failed := failed res @ [code]\<rparr>, w1)
                   | Some df \<Rightarrow>
                       if len df > 0 then
                         (case save_to_database af (write_fault t) df code w1 of
                            ((True, rep), w2) \<Rightarrow> (res\<lparr>success := success res @ [code]\<rparr>, w2)
                          | ((False, rep), w2) \<Rightarrow> (res\<lparr>skipped := skipped res @ [code]\<rparr>, w2))
                       else (res\<lparr>failed := failed res @ [code]\<rparr>, w1)))))"

text \<open>The \<^verbatim>\<open>for\<close> loop; \<open>ts i\<close> is the outside world at turn \<open>i\<close>.\<close>

fun tracker_loop ::
  "(string \<Rightarrow> real option) \<Rightarrow> affinity \<Rightarrow> (nat \<Rightarrow> turn) \<Rightarrow> nat \<Rightarrow> string list \<Rightarrow>
   results \<times> world \<Rightarrow> results \<times> world" where
  "tracker_loop parse af ts i [] s = s"
| "tracker_loop parse af ts i (code # codes) s =
     tracker_loop parse af ts (Suc i) codes (track parse af (ts i) code s)"

definition run_tracker ::
  "(string \<Rightarrow> real option) \<Rightarrow> affinity \<Rightarrow> (nat \<Rightarrow> turn) \<Rightarrow> string list option \<Rightarrow> world \<Rightarrow>
   results \<times> world" where
  "run_tracker parse af ts etf_codes w =
     (let w0 = init_database w;
          codes = (case etf_codes of None \<Rightarrow> map fst ETF_CONFIG | Some cs \<Rightarrow> cs)
      in tracker_loop parse af ts 0 codes
           (\<lparr>success = [], failed = [], skipped = []\<rparr>, w0))"

subsection \<open>The query layer: \<^verbatim>\<open>query_helper.py\<close>\<close>

text \<open>
  The queries splice their arguments between single quotes into the SQL text. For an
  argument without a single quote the text is the statement written in the source, and
  the model is its meaning. With a single quote in the argument the engine receives some
  other text, which the model does not interpret: the result is \<open>None\<close> then.
\<close>

definition quote_free :: "string \<Rightarrow> bool" where
  "quote_free s \<longleftrightarrow> CHR 0x27 \<notin> set s"

text \<open>
  Sorting in descending order of a key, rows of equal key staying in the order they had:
  so SQLite returns the rows of an \<^verbatim>\<open>ORDER BY ... DESC\<close> over this table, and so
  \<^verbatim>\<open>sort_values(..., ascending=False)\<close> returns the rows of a frame.
\<close>

definition sort_desc :: "('a \<Rightarrow> 'k::linorder) \<Rightarrow> 'a list \<Rightarrow> 'a list" where
  "sort_desc f xs = rev (sort_key f (rev xs))"

text \<open>
  \<^verbatim>\<open>ORDER BY weight_pct DESC\<close>: larger weights first, NULL last (SQLite sorts NULL
  below every number), rows of equal weight in table order.
\<close>

definition order_by_weight_desc :: "holding list \<Rightarrow> holding list" where
  "order_by_weight_desc hs = sort_desc weight_pct hs"

text \<open>
  \<^verbatim>\<open>SELECT MAX(date_of_pull) FROM holdings WHERE etf_code = '...'\<close>: NULL when no
  row matches. Dates are stored as text \<^verbatim>\<open>YYYY-MM-DD\<close> and compared as text.
\<close>

definition max_date_of_pull :: "string \<Rightarrow> holding list \<Rightarrow> string option" where
  "max_date_of_pull code tbl =
     (case List.map_filter date_of_pull (filter (\<lambda>h. etf_code h = Some code) tbl) of
        [] \<Rightarrow> None
      | d # ds \<Rightarrow> Some (Max (set (d # ds))))"

definition get_latest_holdings :: "string \<Rightarrow> world \<Rightarrow> holding list option \<times> world" where
  "get_latest_holdings code w =
     (let w1 = connect w;
          df = (if quote_free code then
                  Some (order_by_weight_desc
                    (filter (\<lambda>h. etf_code h = Some code \<and>
                                 (case max_date_of_pull code (holdings w1) of
                                    None \<Rightarrow> False
                                  | Some m \<Rightarrow> date_of_pull h = Some m))
                       (holdings w1)))
                else None)
      in (df, close w1))"

definition get_holdings_by_date ::
  "string \<Rightarrow> string \<Rightarrow> world \<Rightarrow> holding list option \<times> world" where
  "get_holdings_by_date code date_str w =
     (let w1 = connect w;
          df = (if quote_free code \<and> quote_free date_str then
                  Some (order_by_weight_desc
                    (filter (\<lambda>h. etf_code h = Some code \<and> date_of_pull h = Some date_str)
                       (holdings w1)))
                else None)
      in (df, close w1))"

text \<open>
  \<^verbatim>\<open>df1.merge(df2, on=['ticker', 'name'], suffixes=('_old', '_new'), how='outer')\<close>.
  Every pair of a left and a right row with the same key is a row of the result; a row
  without partner appears once, with nothing on the other side. pandas matches a missing
  key value with a missing key value. The rows are listed in the order of the left
  frame, the rows without left partner last; pandas lists them in the order of their
  keys, which shows only among rows of equal absolute change after the sort below.
\<close>

definition same_key :: "holding \<Rightarrow> holding \<Rightarrow> bool" where
  "same_key a b \<longleftrightarrow> ticker a = ticker b \<and> name a = name b"

definition merge_outer :: "holding list \<Rightarrow> holding list \<Rightarrow> (holding option \<times> holding option) list" where
  "merge_outer df1 df2 =
     concat (map (\<lambda>a. case filter (same_key a) df2 of
                         [] \<Rightarrow> [(Some a, None)]
                       | b # bs \<Rightarrow> map (\<lambda>b'. (Some a, Some b')) (b # bs)) df1)
     @ map (\<lambda>b. (None, Some b)) (filter (\<lambda>b. \<not> list_ex (\<lambda>a. same_key a b) df1) df2)"

text \<open>The columns of the merged frame that \<^verbatim>\<open>compare_dates\<close> returns.\<close>

record comparison =
  cmp_name :: "string option"
  cmp_ticker :: "string option"
  location_new :: "string option"
  weight_pct_old :: "real option"
  weight_pct_new :: "real option"
  weight_change :: real
  ytm_pct_old :: "real option"
  ytm_pct_new :: "real option"
  ytm_change :: "real option"

definition fillna :: "real \<Rightarrow> real option \<Rightarrow> real" where
  "fillna v x = (case x of None \<Rightarrow> v | Some y \<Rightarrow> y)"

text \<open>Subtraction of two float columns, element by element: NaN when a side is NaN.\<close>

definition sub_na :: "real option \<Rightarrow> real option \<Rightarrow> real option" where
  "sub_na x y = (case (x, y) of (Some a, Some b) \<Rightarrow> Some (a - b) | _ \<Rightarrow> None)"

definition side :: "(holding \<Rightarrow> 'a option) \<Rightarrow> holding option \<Rightarrow> 'a option" where
  "side f h = (case h of None \<Rightarrow> None | Some r \<Rightarrow> f r)"

definition compare_row :: "holding option \<times> holding option \<Rightarrow> comparison" where
  "compare_row p =
     (case p of (old, new) \<Rightarrow>
        \<lparr>cmp_name = (case old of Some a \<Rightarrow> name a | None \<Rightarrow> side name new),
         cmp_ticker = (case old of Some a \<Rightarrow> ticker a | None \<Rightarrow> side ticker new),
         location_new = side location new,
         weight_pct_old = side weight_pct old,
         weight_pct_new = side weight_pct new,
         weight_change = fillna 0 (side weight_pct new) - fillna 0 (side weight_pct old),
         ytm_pct_old = side ytm_pct old,
         ytm_pct_new = side ytm_pct new,
         ytm_change = sub_na (side ytm_pct new) (side ytm_pct old)\<rparr>)"

text \<open>The three counts \<^verbatim>\<open>compare_dates\<close> prints.\<close>

record summary =
  new_holdings :: nat
  removed_holdings :: nat
  changed_holdings :: nat

definition summarize :: "comparison list \<Rightarrow> summary" where
  "summarize merged =
     \<lparr>new_holdings = length (filter (\<lambda>c. weight_pct_old c = None) merged),
      removed_holdings = length (filter (\<lambda>c. weight_pct_new c = None) merged),
      changed_holdings = length (filter (\<lambda>c. weight_change c \<noteq> 0) merged)\<rparr>"

text \<open>
  \<^verbatim>\<open>sort_values('abs_weight_change', ascending=False)\<close>: rows of equal absolute
  change stay in the order of the merged frame.
\<close>

definition compare_dates ::
  "string \<Rightarrow> string \<Rightarrow> string \<Rightarrow> world \<Rightarrow> (summary \<times> comparison list) option \<times> world" where
  "compare_dates code date1 date2 w =
     (case get_holdings_by_date code date1 w of (r1, w1) \<Rightarrow>
      case get_holdings_by_date code date2 w1 of (r2, w2) \<Rightarrow>
        (case (r1, r2) of
           (Some df1, Some df2) \<Rightarrow>
             (let merged = sort_desc (\<lambda>c. \<bar>weight_change c\<bar>)
                             (map compare_row (merge_outer df1 df2))
              in (Some (summarize merged, merged), w2))
         | _ \<Rightarrow> (None, w2)))"

section \<open>Notions used in the statements and proofs\<close>

text \<open>The weight filter of \<open>clean\<close>, read row by row.\<close>

definition nonzero_weight :: "(string \<Rightarrow> real option) \<Rightarrow> row \<Rightarrow> bool" where
  "nonzero_weight parse r = ne_zero (to_numeric parse (cell_at r ''Weight (%)''))"

text \<open>The frame of \<open>clean\<close> after the stamping of ETF code and date (\<open>df6\<close> there).\<close>

definition stamped :: "(string \<Rightarrow> real option) \<Rightarrow> string \<Rightarrow> string \<Rightarrow> dataframe \<Rightarrow> dataframe" where
  "stamped parse today code df0 =
     df_setitem
       (df_setitem
          (rename (foldl (convert_numeric parse)
             (head 1000 (df0\<lparr>rows := filter (nonzero_weight parse) (rows df0)\<rparr>)) numeric_columns))
          ''etf_code'' (\<lambda>r. Str code))
       ''date_of_pull'' (\<lambda>r. Str today)"

text \<open>A weight that is NULL or a number other than zero.\<close>

definition weight_ok :: "cell \<Rightarrow> bool" where
  "weight_ok c \<longleftrightarrow> c = Missing \<or> (\<exists>x. x \<noteq> 0 \<and> c = Num x)"

text \<open>
  The reading of the data-quality floor in the specification: the fields of the
  uniqueness key are set apart and only the other fields are counted.
\<close>

definition key_fields :: "string list" where
  "key_fields = [''etf_code'', ''date_of_pull'', ''ticker'', ''name'']"

definition key_notna_count :: "row \<Rightarrow> nat" where
  "key_notna_count r = length (filter (\<lambda>p. fst p \<in> set key_fields \<and> snd p \<noteq> Missing) r)"

definition non_key_notna_count :: "row \<Rightarrow> nat" where
  "non_key_notna_count r = length (filter (\<lambda>p. fst p \<notin> set key_fields \<and> snd p \<noteq> Missing) r)"

text \<open>The codes of a run summary, with multiplicity.\<close>

definition outcome :: "results \<Rightarrow> string multiset" where
  "outcome res = mset (success res) + mset (failed res) + mset (skipped res)"

text \<open>The stored records of an ETF at a date, in table order.\<close>

definition snapshot :: "string \<Rightarrow> string \<Rightarrow> world \<Rightarrow> holding list" where
  "snapshot code date_str w =
     filter (\<lambda>h. etf_code h = Some code \<and> date_of_pull h = Some date_str) (holdings w)"

text \<open>The merge key of \<^verbatim>\<open>compare_dates\<close>.\<close>

definition merge_key :: "holding \<Rightarrow> string option \<times> string option" where
  "merge_key h = (ticker h, name h)"

text \<open>The merged row of a left and a right record.\<close>

definition pair_row :: "holding \<Rightarrow> holding \<Rightarrow> comparison" where
  "pair_row a b = compare_row (Some a, Some b)"

section \<open>Concrete inputs\<close>

text \<open>Tables, stores and turns at which the theorems below are evaluated.\<close>

subsection \<open>Coercions and a registry entry\<close>

definition no_parse :: "string \<Rightarrow> real option" where
  "no_parse s = None"

definition plain_affinity :: affinity where
  "plain_affinity = \<lparr>as_text = (\<lambda>x. ''number''), as_real = (\<lambda>s. None)\<rparr>"

definition some_config :: etf_config where
  "some_config = \<lparr>cfg_name = ''EMB'', cfg_url = ''https://feed'', cfg_header_row = 9\<rparr>"

subsection \<open>Feeds\<close>

definition bare_feed :: dataframe where
  "bare_feed =
     \<lparr>columns = [''Name'', ''Price''],
      rows = [[(''Name'', Str ''CASH''), (''Price'', Num 1)]]\<rparr>"

definition dash_feed :: dataframe where
  "dash_feed =
     \<lparr>columns = [''Name'', ''Weight (%)''],
      rows = [[(''Name'', Str ''USD CASH''), (''Weight (%)'', Str ''-'')]]\<rparr>"

definition dash_network :: "string \<Rightarrow> nat \<Rightarrow> exn + dataframe" where
  "dash_network u h = Inr dash_feed"

definition two_feed :: dataframe where
  "two_feed =
     \<lparr>columns = [''Name'', ''Weight (%)''],
      rows = [[(''Name'', Str ''MEXICO''), (''Weight (%)'', Num 0)],
              [(''Name'', Str ''BRAZIL''), (''Weight (%)'', Num 5)]]\<rparr>"

definition two_network :: "string \<Rightarrow> nat \<Rightarrow> exn + dataframe" where
  "two_network u h = Inr two_feed"

definition two_out :: dataframe where
  "two_out =
     \<lparr>columns = [''etf_code'', ''date_of_pull'', ''name'', ''weight_pct''],
      rows = [[(''etf_code'', Str ''EMBI''), (''date_of_pull'', Str ''2025-01-01''),
               (''name'', Str ''BRAZIL''), (''weight_pct'', Num 5)]]\<rparr>"

definition full_header :: "string list" where
  "full_header =
     [''Ticker'', ''Name'', ''Sector'', ''Market Value'', ''Weight (%)'', ''Notional Value'',
      ''Shares'', ''Price'', ''Location'', ''YTM (%)'', ''Maturity'']"

definition thin_feed :: dataframe where
  "thin_feed =
     \<lparr>columns = full_header,
      rows = [zip full_header
                [Str ''MEX10Y'', Missing, Missing, Missing, Num 5, Missing,
                 Missing, Missing, Missing, Missing, Missing]]\<rparr>"

definition thin_network :: "string \<Rightarrow> nat \<Rightarrow> exn + dataframe" where
  "thin_network u h = Inr thin_feed"

definition thin_row :: row where
  "thin_row =
     zip canonical_columns
       [Str ''EMBI'', Str ''2025-01-01'', Str ''MEX10Y'', Missing, Missing, Missing, Missing,
        Num 5, Missing, Missing, Missing, Missing, Missing]"

definition sparse_feed :: dataframe where
  "sparse_feed =
     \<lparr>columns = full_header,
      rows = [zip full_header
                [Str ''MEX10Y'', Str ''MEXICO'', Str ''Sovereign'', Missing, Num 5, Missing,
                 Missing, Missing, Str ''Mexico'', Missing, Missing]]\<rparr>"

definition sparse_network :: "string \<Rightarrow> nat \<Rightarrow> exn + dataframe" where
  "sparse_network u h = Inr sparse_feed"

definition sparse_row :: row where
  "sparse_row =
     zip canonical_columns
       [Str ''EMBI'', Str ''2025-01-01'', Str ''MEX10Y'', Str ''MEXICO'', Str ''Mexico'',
        Str ''Sovereign'', Missing, Num 5, Missing, Missing, Missing, Missing, Missing]"

subsection \<open>Batches and stores\<close>

definition empty_world :: world where
  "empty_world = \<lparr>holdings = [], open_connections = 0\<rparr>"

definition bond_batch :: dataframe where
  "bond_batch =
     \<lparr>columns = [''etf_code'', ''date_of_pull'', ''name'', ''weight_pct''],
      rows = [[(''etf_code'', Str ''EMBI''), (''date_of_pull'', Str ''2025-01-01''),
               (''name'', Str ''MEXICO''), (''weight_pct'', Num 5)]]\<rparr>"

definition bond_holding :: holding where
  "bond_holding =
     \<lparr>etf_code = Some ''EMBI'', date_of_pull = Some ''2025-01-01'', ticker = None,
      name = Some ''MEXICO'', location = None, sector = None, maturity = None,
      weight_pct = Some 5, ytm_pct = None, market_value = None, notional_value = None,
      shares = None, price = None\<rparr>"

definition ticker_batch :: dataframe where
  "ticker_batch =
     \<lparr>columns = [''etf_code'', ''date_of_pull'', ''ticker'', ''name'', ''weight_pct''],
      rows = [[(''etf_code'', Str ''EMBI''), (''date_of_pull'', Str ''2025-01-01''),
               (''ticker'', Str ''MEX10Y''), (''name'', Str ''MEXICO''),
               (''weight_pct'', Num 5)]]\<rparr>"

definition ticker_holding :: holding where
  "ticker_holding = bond_holding\<lparr>ticker := Some ''MEX10Y''\<rparr>"

text \<open>A stored row of EMBI with date, ticker, name, weight and yield.\<close>

definition stored :: "string \<Rightarrow> string \<Rightarrow> string \<Rightarrow> real option \<Rightarrow> real option \<Rightarrow> holding" where
  "stored d t n wt y =
     \<lparr>etf_code = Some ''EMBI'', date_of_pull = Some d, ticker = Some t, name = Some n,
      location = None, sector = None, maturity = None, weight_pct = wt, ytm_pct = y,
      market_value = None, notional_value = None, shares = None, price = None\<rparr>"

definition three_world :: world where
  "three_world =
     \<lparr>holdings =
        [stored ''2025-01-01'' ''MEX10Y'' ''MEXICO'' (Some 9) (Some 6),
         stored ''2025-01-02'' ''MEX10Y'' ''MEXICO'' (Some 2) (Some 6),
         stored ''2025-01-02'' ''BRA10Y'' ''BRAZIL'' (Some 3) (Some 7)],
      open_connections = 0\<rparr>"

definition five_world :: world where
  "five_world =
     \<lparr>holdings =
        [stored ''2025-01-01'' ''MEX10Y'' ''MEXICO'' (Some 9) (Some 6),
         stored ''2025-01-02'' ''MEX10Y'' ''MEXICO'' (Some 2) (Some 6),
         stored ''2025-01-02'' ''BRA10Y'' ''BRAZIL'' (Some 5) None],
      open_connections = 0\<rparr>"

definition gap_world :: world where
  "gap_world =
     \<lparr>holdings =
        [stored ''2025-01-02'' ''MEX10Y'' ''MEXICO'' (Some 5) (Some 6),
         stored ''2025-01-02'' ''CASH'' ''USD CASH'' None None],
      open_connections = 0\<rparr>"

definition issuer_world :: world where
  "issuer_world =
     \<lparr>holdings =
        [(stored ''2025-01-02'' [] ''MEXICO'' (Some 5) (Some 6))\<lparr>ticker := None\<rparr>,
         (stored ''2025-01-02'' [] ''MEXICO'' (Some 3) (Some 7))\<lparr>ticker := None\<rparr>],
      open_connections = 0\<rparr>"

subsection \<open>Turns of the orchestrator\<close>

definition calm_turns :: "nat \<Rightarrow> turn" where
  "calm_turns i =
     \<lparr>today_check = ''2025-01-01'', network = sparse_network,
      today_stamp = ''2025-01-01'', write_fault = False\<rparr>"

definition faulty_turns :: "nat \<Rightarrow> turn" where
  "faulty_turns i =
     \<lparr>today_check = ''2025-01-01'', network = sparse_network,
      today_stamp = ''2025-01-01'', write_fault = (i = 0)\<rparr>"

section \<open>Properties of the normalizer\<close>

subsection \<open>Rows through the pipeline\<close>


lemma mask_filter: "map snd (filter fst (zip (map m rs) rs)) = filter m rs"
  by (induction rs) auto

lemma cell_at_update: "cell_at (AList.update k v r) k' = (if k' = k then v else cell_at r k')"
  by (simp add: cell_at_def update_conv')

lemma rows_setitem: "rows (df_setitem df k f) = map (\<lambda>r. AList.update k (f r) r) (rows df)"
  by (simp add: df_setitem_def)

lemma setitem_keeps_cell:
  assumes "k' \<noteq> k" and "\<forall>r\<in>set (rows df). Q (cell_at r k')"
  shows "\<forall>r\<in>set (rows (df_setitem df k f)). Q (cell_at r k')"
  using assms by (auto simp: rows_setitem cell_at_update)

lemma convert_keeps_cell:
  assumes "k' \<noteq> snd p" and "\<forall>r\<in>set (rows df). Q (cell_at r k')"
  shows "\<forall>r\<in>set (rows (convert_numeric parse df p)). Q (cell_at r k')"
proof (cases p)
  case (Pair orig_col new_col)
  with assms show ?thesis
    using setitem_keeps_cell [of k' new_col df Q]
    by (simp add: convert_numeric_def)
qed

lemma rename_label_fixed:
  assumes "k0 \<notin> fst ` set column_mapping" and "k0 \<notin> snd ` set column_mapping"
  shows "rename_label k = k0 \<longleftrightarrow> k = k0"
proof (cases "map_of column_mapping k")
  case None
  then show ?thesis by (simp add: rename_label_def)
next
  case (Some k')
  then have "(k, k') \<in> set column_mapping" by (rule map_of_SomeD)
  then have "k \<in> fst ` set column_mapping" and "k' \<in> snd ` set column_mapping"
    by force+
  with assms Some show ?thesis by (auto simp: rename_label_def)
qed

lemma map_of_relabel:
  assumes "\<And>k. f k = k0 \<longleftrightarrow> k = k0"
  shows "map_of (map (\<lambda>(k, v). (f k, v)) r) k0 = map_of r k0"
proof (induction r)
  case Nil
  then show ?case by simp
next
  case (Cons p r)
  obtain k v where p: "p = (k, v)" by (cases p)
  have "(k0 = f k) = (k0 = k)" by (metis assms)
  with Cons p show ?case by simp
qed

lemma rename_keeps_cell:
  assumes "k0 \<notin> fst ` set column_mapping" and "k0 \<notin> snd ` set column_mapping"
    and "\<forall>r\<in>set (rows df). Q (cell_at r k0)"
  shows "\<forall>r\<in>set (rows (rename df)). Q (cell_at r k0)"
proof -
  have m: "map_of (map (\<lambda>(k, v). (rename_label k, v)) r) k0 = map_of r k0" for r :: row
    by (rule map_of_relabel) (rule rename_label_fixed [OF assms(1,2)])
  have "cell_at (map (\<lambda>(k, v). (rename_label k, v)) r) k0 = cell_at r k0" for r
    by (simp only: cell_at_def m)
  with assms(3) show ?thesis by (simp add: rename_def)
qed

lemma map_of_project:
  "map_of (project_row ks r) k = (if k \<in> set ks then map_of r k else None)"
proof -
  have one: "map_of (filter (\<lambda>p. fst p = k') r) k = (if k = k' then map_of r k else None)"
    for k' :: string
    by (induction r) auto
  show ?thesis
    unfolding project_row_def
    by (induction ks) (auto simp: one map_add_def split: option.splits)
qed

lemma cell_at_project:
  "cell_at (project_row ks r) k = (if k \<in> set ks then cell_at r k else Missing)"
  by (simp add: cell_at_def map_of_project)

lemma ne_zero_numeric:
  assumes "ne_zero (to_numeric parse c)"
  shows "to_numeric parse c = Missing \<or> (\<exists>x. x \<noteq> 0 \<and> to_numeric parse c = Num x)"
  using assms by (auto simp: ne_zero_def to_numeric_def split: cell.splits option.splits)




lemma clean_present:
  assumes "''Weight (%)'' \<in> set (columns df0)"
  shows "clean parse today code df0 =
     Inr (df_getitem_list (stamped parse today code df0)
            (filter (\<lambda>col. col \<in> set (columns (stamped parse today code df0))) canonical_columns))"
  using assms
  by (simp add: clean_def df_get_def mask_filter comp_def stamped_def Let_def nonzero_weight_def [abs_def])

lemma clean_Inr:
  assumes "clean parse today code df0 = Inr df"
  shows "''Weight (%)'' \<in> set (columns df0)"
    and "df = df_getitem_list (stamped parse today code df0)
            (filter (\<lambda>col. col \<in> set (columns (stamped parse today code df0))) canonical_columns)"
proof -
  show w: "''Weight (%)'' \<in> set (columns df0)"
    using assms by (auto simp: clean_def df_get_def split: if_splits)
  show "df = df_getitem_list (stamped parse today code df0)
            (filter (\<lambda>col. col \<in> set (columns (stamped parse today code df0))) canonical_columns)"
    using assms clean_present [OF w, of parse today code] by simp
qed



lemma stamped_weight:
  assumes "''Weight (%)'' \<in> set (columns df0)"
  shows "\<forall>r\<in>set (rows (stamped parse today code df0)). weight_ok (cell_at r ''weight_pct'')"
proof -
  define df2 where "df2 = head 1000 (df0\<lparr>rows := filter (nonzero_weight parse) (rows df0)\<rparr>)"
  define d1 where "d1 = convert_numeric parse df2 (''Weight (%)'', ''weight_pct'')"
  have "\<forall>r\<in>set (rows df2). nonzero_weight parse r"
    by (auto simp: df2_def head_def dest: in_set_takeD)
  moreover have "''Weight (%)'' \<in> set (columns df2)"
    using assms by (simp add: df2_def head_def)
  ultimately have "\<forall>r\<in>set (rows d1). weight_ok (cell_at r ''weight_pct'')"
    using ne_zero_numeric [of parse]
    by (auto simp: d1_def convert_numeric_def rows_setitem cell_at_update nonzero_weight_def weight_ok_def)
  then have "\<forall>r\<in>set (rows (foldl (convert_numeric parse) df2 numeric_columns)).
               weight_ok (cell_at r ''weight_pct'')"
    unfolding numeric_columns_def foldl.simps d1_def [symmetric]
    by (intro convert_keeps_cell) simp_all
  then have "\<forall>r\<in>set (rows (rename (foldl (convert_numeric parse) df2 numeric_columns))).
               weight_ok (cell_at r ''weight_pct'')"
    by (intro rename_keeps_cell) (simp_all add: column_mapping_def)
  then show ?thesis
    unfolding stamped_def df2_def [symmetric]
    by (intro setitem_keeps_cell) simp_all
qed

lemma clean_weight:
  assumes "clean parse today code df0 = Inr df"
  shows "\<forall>r\<in>set (rows df). weight_ok (cell_at r ''weight_pct'')"
  using clean_Inr [OF assms] stamped_weight [of df0 parse today code]
  by (auto simp: df_getitem_list_def cell_at_project weight_ok_def)

text \<open>
  C10. When the table read from the feed has no column \<^verbatim>\<open>Weight (%)\<close>, the weight
  filter raises KeyError (the default 0 of \<^verbatim>\<open>df.get\<close> becomes the single boolean
  False, which is no column label), the handler catches it, and \<open>fetch_etf_data\<close>
  returns None: no records.
\<close>

theorem fetch_without_weight_column:
  assumes "read_csv (cfg_url config) (cfg_header_row config) = Inr df0"
    and "''Weight (%)'' \<notin> set (columns df0)"
  shows "clean parse today code df0 = Inl KeyError \<and>
         fetch_etf_data parse read_csv today code config = None"
  using assms by (simp add: fetch_etf_data_def clean_def df_get_def)

theorem fetch_without_weight_column_witness:
  "''Weight (%)'' \<notin> set (columns bare_feed) \<and>
   clean no_parse ''2025-01-01'' ''EMBI'' bare_feed = Inl KeyError \<and>
   fetch_etf_data no_parse (\<lambda>u h. Inr bare_feed) ''2025-01-01'' ''EMBI'' some_config = None"
proof -
  have h: "''Weight (%)'' \<notin> set (columns bare_feed)"
    by (simp add: bare_feed_def)
  show ?thesis
    using h fetch_without_weight_column [where read_csv = "\<lambda>u h. Inr bare_feed", OF refl h]
    by simp
qed

text \<open>
  C2 (as amended). The weight filter keeps a row exactly when its \<^verbatim>\<open>Weight (%)\<close>,
  coerced to a number, is not the number zero. So a row whose weight is zero never
  reaches the result: the result is the same as for the feed without these rows, and
  every record of the result has a \<open>weight_pct\<close> that is NULL or a number other than
  zero. A weight that fails the coercion is NaN, and NaN differs from zero: such a row
  passes the filter and is stored with a NULL weight, as the theorem after the next shows.
\<close>

theorem zero_weight_rows_excluded:
  assumes "read_csv (cfg_url config) (cfg_header_row config) = Inr df0"
    and "fetch_etf_data parse read_csv today code config = Some out"
  shows "(\<forall>r\<in>set (rows out).
            cell_at r ''weight_pct'' = Missing \<or>
            (\<exists>x. x \<noteq> 0 \<and> cell_at r ''weight_pct'' = Num x)) \<and>
         fetch_etf_data parse
           (\<lambda>u h. Inr (df0\<lparr>rows := filter (\<lambda>r. to_numeric parse (cell_at r ''Weight (%)'') \<noteq> Num 0)
                                      (rows df0)\<rparr>))
           today code config = Some out"
proof -
  obtain df where cl: "clean parse today code df0 = Inr df"
    and out: "out = dropna (real (length (columns df)) * (1 / 2)) df"
    using assms by (auto simp: fetch_etf_data_def split: sum.splits)
  have "\<forall>r\<in>set (rows df). weight_ok (cell_at r ''weight_pct'')"
    using cl by (rule clean_weight)
  then have first: "\<forall>r\<in>set (rows out).
      cell_at r ''weight_pct'' = Missing \<or> (\<exists>x. x \<noteq> 0 \<and> cell_at r ''weight_pct'' = Num x)"
    by (simp add: out dropna_def weight_ok_def)
  define df0' where
    "df0' = df0\<lparr>rows := filter (\<lambda>r. to_numeric parse (cell_at r ''Weight (%)'') \<noteq> Num 0) (rows df0)\<rparr>"
  have w: "''Weight (%)'' \<in> set (columns df0)"
    using cl by (rule clean_Inr(1))
  then have w': "''Weight (%)'' \<in> set (columns df0')"
    by (simp add: df0'_def)
  have "stamped parse today code df0' = stamped parse today code df0"
    by (simp add: stamped_def df0'_def nonzero_weight_def [abs_def] ne_zero_def)
  then have "clean parse today code df0' = clean parse today code df0"
    by (simp add: clean_present [OF w] clean_present [OF w'])
  then have "fetch_etf_data parse (\<lambda>u h. Inr df0') today code config = Some out"
    by (simp add: fetch_etf_data_def cl out)
  with first show ?thesis by (simp add: df0'_def)
qed

theorem zero_weight_rows_excluded_witness:
  "two_network (cfg_url some_config) (cfg_header_row some_config) = Inr two_feed \<and>
   fetch_etf_data no_parse two_network ''2025-01-01'' ''EMBI'' some_config = Some two_out \<and>
   list_all (\<lambda>r. cell_at r ''weight_pct'' = Missing \<or>
                   (\<exists>x. x \<noteq> 0 \<and> cell_at r ''weight_pct'' = Num x)) (rows two_out) \<and>
   fetch_etf_data no_parse
     (\<lambda>u h. Inr (two_feed\<lparr>rows := filter (\<lambda>r. to_numeric no_parse (cell_at r ''Weight (%)'') \<noteq> Num 0)
                                   (rows two_feed)\<rparr>))
     ''2025-01-01'' ''EMBI'' some_config = Some two_out"
proof -
  have h1: "two_network (cfg_url some_config) (cfg_header_row some_config) = Inr two_feed"
    by (simp add: two_network_def)
  have h2: "fetch_etf_data no_parse two_network ''2025-01-01'' ''EMBI'' some_config = Some two_out"
    by code_simp
  show ?thesis
    using zero_weight_rows_excluded [OF h1 h2] h1 h2 by (simp add: list_all_iff)
qed

text \<open>
  The claim as worded also excludes rows whose weight is not numeric. The cash line of
  a feed, with the weight \<^verbatim>\<open>-\<close>, is kept.
\<close>

theorem non_numeric_weight_row_kept:
  "to_numeric no_parse (Str ''-'') = Missing \<and>
   fetch_etf_data no_parse dash_network ''2025-01-01'' ''EMBI'' some_config =
     Some \<lparr>columns = [''etf_code'', ''date_of_pull'', ''name'', ''weight_pct''],
           rows = [[(''etf_code'', Str ''EMBI''), (''date_of_pull'', Str ''2025-01-01''),
                    (''name'', Str ''USD CASH''), (''weight_pct'', Missing)]]\<rparr>"
  by code_simp

subsection \<open>The null-count floor\<close>

lemma half_thresh: "real n * (1 / 2) \<le> real m \<longleftrightarrow> n \<le> 2 * m"
proof -
  have "real n * (1 / 2) \<le> real m \<longleftrightarrow> real n \<le> real (2 * m)" by (simp add: field_simps)
  then show ?thesis by (simp only: of_nat_le_iff)
qed

lemma notna_split: "notna_count r = key_notna_count r + non_key_notna_count r"
  unfolding notna_count_def key_notna_count_def non_key_notna_count_def
  by (induction r) auto

lemma update_same_mem: "(k, v) \<in> set (AList.update k v r)"
  by (induction r) auto

lemma update_other_mem: "k \<noteq> k' \<Longrightarrow> (k, v) \<in> set r \<Longrightarrow> (k, v) \<in> set (AList.update k' v' r)"
  by (induction r) auto

lemma project_mem: "k \<in> set ks \<Longrightarrow> (k, v) \<in> set r \<Longrightarrow> (k, v) \<in> set (project_row ks r)"
  by (auto simp: project_row_def)

lemma two_in_filter:
  assumes "x \<in> set r" "y \<in> set r" "x \<noteq> y" "P x" "P y"
  shows "2 \<le> length (filter P r)"
proof -
  have "{x, y} \<subseteq> set (filter P r)" using assms by simp
  then have "card {x, y} \<le> card (set (filter P r))" by (intro card_mono) simp_all
  also have "\<dots> \<le> length (filter P r)" by (rule card_length)
  finally show ?thesis using assms(3) by simp
qed


lemma stamped_stamps:
  assumes "r \<in> set (rows (stamped parse today code df0))"
  shows "(''etf_code'', Str code) \<in> set r" and "(''date_of_pull'', Str today) \<in> set r"
proof -
  obtain r0 where r:
    "r = AList.update ''date_of_pull'' (Str today) (AList.update ''etf_code'' (Str code) r0)"
    using assms by (auto simp: stamped_def rows_setitem)
  have "(''etf_code'', Str code) \<in> set (AList.update ''etf_code'' (Str code) r0)"
    by (rule update_same_mem)
  then show "(''etf_code'', Str code) \<in> set r"
    unfolding r by (simp add: update_other_mem)
  show "(''date_of_pull'', Str today) \<in> set r"
    unfolding r by (rule update_same_mem)
qed

lemma stamped_columns:
  "''etf_code'' \<in> set (columns (stamped parse today code df0))"
  "''date_of_pull'' \<in> set (columns (stamped parse today code df0))"
  by (simp_all add: stamped_def df_setitem_def)

lemma clean_stamps:
  assumes "clean parse today code df0 = Inr df" and "r \<in> set (rows df)"
  shows "(''etf_code'', Str code) \<in> set r" and "(''date_of_pull'', Str today) \<in> set r"
proof -
  define st where "st = stamped parse today code df0"
  define keep where "keep = filter (\<lambda>col. col \<in> set (columns st)) canonical_columns"
  have df: "df = df_getitem_list st keep"
    using clean_Inr(2) [OF assms(1)] by (simp add: st_def keep_def)
  then obtain r6 where r6: "r6 \<in> set (rows st)" and r: "r = project_row keep r6"
    using assms(2) by (auto simp: df_getitem_list_def)
  have "''etf_code'' \<in> set canonical_columns" and "''date_of_pull'' \<in> set canonical_columns"
    by (simp_all add: canonical_columns_def)
  then have k: "''etf_code'' \<in> set keep" "''date_of_pull'' \<in> set keep"
    using stamped_columns [of parse today code df0] by (simp_all add: keep_def st_def)
  show "(''etf_code'', Str code) \<in> set r"
    unfolding r using k(1) r6 stamped_stamps(1) [of r6 parse today code df0]
    by (intro project_mem) (simp_all add: st_def)
  show "(''date_of_pull'', Str today) \<in> set r"
    unfolding r using k(2) r6 stamped_stamps(2) [of r6 parse today code df0]
    by (intro project_mem) (simp_all add: st_def)
qed

lemma clean_key_count:
  assumes "clean parse today code df0 = Inr df" and "r \<in> set (rows df)"
  shows "2 \<le> key_notna_count r"
  unfolding key_notna_count_def
proof (rule two_in_filter)
  show "(''etf_code'', Str code) \<in> set r" by (rule clean_stamps(1) [OF assms])
  show "(''date_of_pull'', Str today) \<in> set r" by (rule clean_stamps(2) [OF assms])
qed (simp_all add: key_fields_def)

text \<open>
  C8 (as amended). \<open>fetch_etf_data\<close> discards exactly the rows whose count of non-null
  cells is below half of the number of columns that were kept. The count runs over all
  kept columns, the key fields included; \<open>etf_code\<close> and \<open>date_of_pull\<close> are stamped
  on every row and always add two to it. When all thirteen canonical columns are
  there, a row with at most six non-null cells is dropped; a row whose source supplies
  only ticker and weight has four, as in the instance that follows the theorem.
\<close>

theorem null_floor_counts_all_columns:
  assumes "read_csv (cfg_url config) (cfg_header_row config) = Inr df0"
    and "clean parse today code df0 = Inr df"
  shows "fetch_etf_data parse read_csv today code config =
           Some (df\<lparr>rows := filter (\<lambda>r. length (columns df) \<le> 2 * notna_count r) (rows df)\<rparr>) \<and>
         (\<forall>r\<in>set (rows df).
            notna_count r = key_notna_count r + non_key_notna_count r \<and>
            2 \<le> key_notna_count r) \<and>
         (\<forall>out r. fetch_etf_data parse read_csv today code config = Some out \<longrightarrow>
            length (columns df) = 13 \<longrightarrow> r \<in> set (rows df) \<longrightarrow> notna_count r \<le> 6 \<longrightarrow>
            r \<notin> set (rows out))"
proof -
  have out: "fetch_etf_data parse read_csv today code config =
      Some (df\<lparr>rows := filter (\<lambda>r. length (columns df) \<le> 2 * notna_count r) (rows df)\<rparr>)"
  proof -
    have "dropna (real (length (columns df)) * (1 / 2)) df =
        df\<lparr>rows := filter (\<lambda>r. length (columns df) \<le> 2 * notna_count r) (rows df)\<rparr>"
      by (simp only: dropna_def half_thresh)
    with assms show ?thesis by (simp add: fetch_etf_data_def)
  qed
  have counts: "\<forall>r\<in>set (rows df).
      notna_count r = key_notna_count r + non_key_notna_count r \<and> 2 \<le> key_notna_count r"
    using clean_key_count [OF assms(2)] notna_split by blast
  show ?thesis
    using out counts by auto
qed

theorem null_floor_counts_all_columns_witness:
  "thin_network (cfg_url some_config) (cfg_header_row some_config) = Inr thin_feed \<and>
   clean no_parse ''2025-01-01'' ''EMBI'' thin_feed =
     Inr \<lparr>columns = canonical_columns, rows = [thin_row]\<rparr> \<and>
   notna_count thin_row = 4 \<and>
   fetch_etf_data no_parse thin_network ''2025-01-01'' ''EMBI'' some_config =
     Some \<lparr>columns = canonical_columns, rows = []\<rparr>"
proof -
  have h1: "thin_network (cfg_url some_config) (cfg_header_row some_config) = Inr thin_feed"
    by (simp add: thin_network_def)
  have h2: "clean no_parse ''2025-01-01'' ''EMBI'' thin_feed =
      Inr \<lparr>columns = canonical_columns, rows = [thin_row]\<rparr>"
    by code_simp
  have n: "notna_count thin_row = 4"
    by code_simp
  have l: "length canonical_columns = 13"
    by (simp add: canonical_columns_def)
  show ?thesis
    using null_floor_counts_all_columns
            [where read_csv = thin_network and config = some_config, OF h1 h2] h1 h2 n l
    by simp
qed

text \<open>
  Counting only the fields outside the key, the row below has three non-null fields,
  fewer than half of the thirteen columns and fewer than half of the nine columns
  outside the key. It is kept, because ETF code, date, ticker and name bring the count
  to seven.
\<close>

theorem sparse_row_kept:
  "fetch_etf_data no_parse sparse_network ''2025-01-01'' ''EMBI'' some_config =
     Some \<lparr>columns = canonical_columns, rows = [sparse_row]\<rparr> \<and>
   length canonical_columns = 13 \<and>
   non_key_notna_count sparse_row = 3 \<and>
   notna_count sparse_row = 7"
  by code_simp

section \<open>Properties of the store\<close>

subsection \<open>The multi-row insert\<close>

lemma insert_rows_cases:
  "insert_rows tbl hs = Inl IntegrityError \<or> insert_rows tbl hs = Inr (tbl @ hs)"
proof (induction hs arbitrary: tbl)
  case Nil
  then show ?case by simp
next
  case (Cons a hs)
  from Cons [of "tbl @ [a]"] show ?case by auto
qed

lemma insert_rows_no_clash:
  assumes "insert_rows tbl hs = Inr tbl'" and "h \<in> set hs" and "s \<in> set tbl"
  shows "\<not> unique_clash s h"
  using assms
proof (induction hs arbitrary: tbl)
  case Nil
  then show ?case by simp
next
  case (Cons a hs)
  from Cons.prems(1) have ok: "\<not> list_ex (\<lambda>s. unique_clash s a) tbl"
    and rest: "insert_rows (tbl @ [a]) hs = Inr tbl'"
    by (auto split: if_splits)
  show ?case
  proof (cases "h = a")
    case True
    with ok Cons.prems(3) show ?thesis by (auto simp: list_ex_iff)
  next
    case False
    with Cons.prems(2) have "h \<in> set hs" by simp
    with Cons.IH [OF rest] Cons.prems(3) show ?thesis by simp
  qed
qed

lemma insert_rows_not_null:
  assumes "insert_rows tbl hs = Inr tbl'" and "h \<in> set hs"
  shows "etf_code h \<noteq> None \<and> date_of_pull h \<noteq> None"
  using assms
  by (induction hs arbitrary: tbl) (auto split: if_splits)

lemma insert_rows_again:
  assumes "insert_rows tbl hs = Inr tbl'"
    and "h \<in> set hs" and "ticker h \<noteq> None" and "name h \<noteq> None"
  shows "insert_rows tbl' hs = Inl IntegrityError"
proof -
  have tbl': "tbl' = tbl @ hs"
    using insert_rows_cases [of tbl hs] assms(1) by auto
  have "unique_clash h h"
    using insert_rows_not_null [OF assms(1,2)] assms(3,4) by (simp add: unique_clash_def)
  moreover have "h \<in> set tbl'" using assms(2) tbl' by simp
  ultimately have "insert_rows tbl' hs \<noteq> Inr (tbl' @ hs)"
    using insert_rows_no_clash [of tbl' hs "tbl' @ hs" h h] assms(2) by blast
  then show ?thesis
    using insert_rows_cases [of tbl' hs] by blast
qed


lemma sql_text_None: "sql_text af c = None \<longleftrightarrow> c = Missing"
  by (simp add: sql_text_def split: cell.splits)

text \<open>
  Where the uniqueness constraint fires. Let a batch have been appended through
  \<open>save_to_database\<close> with success, and let at least one of its rows have a ticker
  and a name. Appending the same batch again is rejected as a whole: the call reports
  "already exists", returns False, and the table, hence the record count, is as before.
  With an engine fault during the second call the result is False and the table is
  unchanged as well.
\<close>

theorem repeated_append_rejected:
  assumes "save_to_database af fault df code w = ((True, rep), w1)"
    and "r \<in> set (rows df)"
    and "cell_at r ''ticker'' \<noteq> Missing" and "cell_at r ''name'' \<noteq> Missing"
  shows "save_to_database af False df code w1 =
           ((False, AlreadyExists), w1\<lparr>open_connections := Suc (open_connections w1)\<rparr>) \<and>
         holdings (snd (save_to_database af fault' df code w1)) = holdings w1 \<and>
         length (holdings (snd (save_to_database af fault' df code w1))) = length (holdings w1) \<and>
         \<not> fst (fst (save_to_database af fault' df code w1))"
proof -
  define hs where "hs = map (bind_row af) (rows df)"
  from assms(1) obtain tbl where ins: "to_sql af fault df (holdings w) = Inr tbl"
    and w1: "w1 = close ((connect w)\<lparr>holdings := tbl\<rparr>)"
    by (auto simp: save_to_database_def Let_def connect_def split: sum.splits if_splits)
  from ins have cols: "set (columns df) \<subseteq> set canonical_columns"
    and ins': "insert_rows (holdings w) hs = Inr tbl"
    by (auto simp: to_sql_def hs_def split: if_splits)
  have h: "bind_row af r \<in> set hs" using assms(2) by (simp add: hs_def)
  have "ticker (bind_row af r) \<noteq> None" and "name (bind_row af r) \<noteq> None"
    using assms(3,4) by (simp_all add: bind_row_def sql_text_None)
  with ins' h have again: "insert_rows tbl hs = Inl IntegrityError"
    by (rule insert_rows_again)
  have tbl: "holdings w1 = tbl" by (simp add: w1 close_def connect_def)
  have 1: "to_sql af False df (holdings (connect w1)) = Inl IntegrityError"
    using again cols by (simp add: to_sql_def hs_def tbl connect_def)
  have 2: "\<exists>e. to_sql af fault' df (holdings (connect w1)) = Inl e"
    using 1 by (cases fault') (simp_all add: to_sql_def)
  show ?thesis
    using 1 2 by (auto simp: save_to_database_def Let_def connect_def split: if_splits)
qed

theorem repeated_append_rejected_witness:
  "save_to_database plain_affinity False ticker_batch ''EMBI'' empty_world =
     ((True, Saved 1), \<lparr>holdings = [ticker_holding], open_connections = 0\<rparr>) \<and>
   save_to_database plain_affinity False ticker_batch ''EMBI''
       \<lparr>holdings = [ticker_holding], open_connections = 0\<rparr> =
     ((False, AlreadyExists), \<lparr>holdings = [ticker_holding], open_connections = 1\<rparr>)"
proof -
  define r where "r = hd (rows ticker_batch)"
  have h1: "save_to_database plain_affinity False ticker_batch ''EMBI'' empty_world =
      ((True, Saved 1), \<lparr>holdings = [ticker_holding], open_connections = 0\<rparr>)"
    by code_simp
  have h2: "r \<in> set (rows ticker_batch)"
    by (simp add: r_def ticker_batch_def)
  have h3: "cell_at r ''ticker'' \<noteq> Missing"
    by (simp add: r_def ticker_batch_def cell_at_def)
  have h4: "cell_at r ''name'' \<noteq> Missing"
    by (simp add: r_def ticker_batch_def cell_at_def)
  show ?thesis
    using repeated_append_rejected [OF h1 h2 h3 h4] h1 by simp
qed

text \<open>
  C1. A second append of a batch that was appended before is to be rejected as a whole
  and to leave the record count unchanged. The source says so itself: the table declares
  \<^verbatim>\<open>UNIQUE(etf_code, date_of_pull, ticker, name)\<close>, the comment above the write reads
  "to avoid duplicates", and the handler reports "Data already exists for this date".
  The guard misses the rows without ticker or name: SQL compares NULL as different from
  NULL, so such rows clash with nothing. For the batch below, as a feed without a
  \<^verbatim>\<open>Ticker\<close> column gives it, the second append succeeds, returns True and doubles the
  stored rows.
\<close>

theorem keyless_batch_appended_twice:
  "save_to_database plain_affinity False bond_batch ''EMBI'' empty_world =
     ((True, Saved 1), \<lparr>holdings = [bond_holding], open_connections = 0\<rparr>) \<and>
   save_to_database plain_affinity False bond_batch ''EMBI''
       \<lparr>holdings = [bond_holding], open_connections = 0\<rparr> =
     ((True, Saved 1), \<lparr>holdings = [bond_holding, bond_holding], open_connections = 0\<rparr>)"
  by code_simp

text \<open>
  C5 (as amended). A store operation closes the connection it opened when it completes
  without an exception: \<open>save_to_database\<close> on the path that returns True,
  \<open>init_database\<close>, \<open>check_data_exists\<close> and the two snapshot queries. On the paths
  of \<open>save_to_database\<close> that end in an error (return value False) the call of
  \<^verbatim>\<open>conn.close()\<close> is not reached: the connection opened at the start is still open
  when the function returns, and its release is left to the finalizer of the runtime.
\<close>

theorem connection_closed_unless_error:
  "open_connections (snd (save_to_database af fault df code w)) =
     (if fst (fst (save_to_database af fault df code w)) then open_connections w
      else Suc (open_connections w)) \<and>
   open_connections (init_database w) = open_connections w \<and>
   open_connections (snd (check_data_exists code date_str w)) = open_connections w \<and>
   (quote_free code \<longrightarrow>
      open_connections (snd (get_latest_holdings code w)) = open_connections w) \<and>
   (quote_free code \<and> quote_free date_str \<longrightarrow>
      open_connections (snd (get_holdings_by_date code date_str w)) = open_connections w)"
  by (simp add: save_to_database_def init_database_def check_data_exists_def
      get_latest_holdings_def get_holdings_by_date_def Let_def connect_def close_def
      split: sum.splits)

theorem connection_closed_unless_error_witness:
  "quote_free ''EMBI'' \<and> quote_free ''2025-01-01'' \<and>
   fst (fst (save_to_database plain_affinity False ticker_batch ''EMBI'' empty_world)) \<and>
   open_connections (snd (save_to_database plain_affinity False ticker_batch ''EMBI'' empty_world)) = 0 \<and>
   open_connections (snd (get_latest_holdings ''EMBI'' empty_world)) = 0 \<and>
   open_connections (snd (get_holdings_by_date ''EMBI'' ''2025-01-01'' empty_world)) = 0"
proof -
  have q: "quote_free ''EMBI''" "quote_free ''2025-01-01''"
    by (simp_all add: quote_free_def)
  have s: "fst (fst (save_to_database plain_affinity False ticker_batch ''EMBI'' empty_world))"
    by code_simp
  have z: "open_connections empty_world = 0"
    by (simp add: empty_world_def)
  show ?thesis
    using connection_closed_unless_error
            [of plain_affinity False ticker_batch "''EMBI''" empty_world "''2025-01-01''"] q s z
    by simp
qed

text \<open>
  The claim as worded (release on every exit path) fails on the rejected append: the
  handler of IntegrityError returns with the connection open.
\<close>

theorem connection_left_open_on_rejection:
  "save_to_database plain_affinity False ticker_batch ''EMBI''
       \<lparr>holdings = [ticker_holding], open_connections = 0\<rparr> =
     ((False, AlreadyExists), \<lparr>holdings = [ticker_holding], open_connections = 1\<rparr>)"
  by code_simp

section \<open>Properties of the orchestrator\<close>

lemma track_outcome:
  "outcome (fst (track parse af t code (res, w))) = outcome res + {#code#}"
  by (auto simp: track_def outcome_def split: option.splits prod.splits bool.splits)

lemma tracker_loop_outcome:
  "outcome (fst (tracker_loop parse af ts i codes s)) = outcome (fst s) + mset codes"
proof (induction codes arbitrary: i s)
  case Nil
  then show ?case by simp
next
  case (Cons code codes)
  obtain res w where s: "s = (res, w)" by (cases s)
  show ?case
    by (simp add: Cons.IH s track_outcome)
qed


lemma run_tracker_outcome:
  "outcome (fst (run_tracker parse af ts etf_codes w)) =
     mset (case etf_codes of None \<Rightarrow> map fst ETF_CONFIG | Some cs \<Rightarrow> cs)"
  by (simp add: run_tracker_def Let_def tracker_loop_outcome) (simp add: outcome_def)

lemma registry_distinct: "distinct (map fst ETF_CONFIG)"
  by (simp add: ETF_CONFIG_def)

text \<open>
  C4 (as amended). Every turn of the loop adds the code it handles to exactly one of the
  three lists, so the lists together hold the input codes, each as often as it was
  given. When no code is given twice (as for the default, the codes of the registry),
  the lists of succeeded, skipped and failed codes are pairwise disjoint.
\<close>

theorem summary_lists_disjoint:
  assumes "case etf_codes of None \<Rightarrow> True | Some cs \<Rightarrow> distinct cs"
    and "res = fst (run_tracker parse af ts etf_codes w)"
  shows "set (success res) \<inter> set (skipped res) = {} \<and>
         set (success res) \<inter> set (failed res) = {} \<and>
         set (skipped res) \<inter> set (failed res) = {}"
proof -
  define codes where "codes = (case etf_codes of None \<Rightarrow> map fst ETF_CONFIG | Some cs \<Rightarrow> cs)"
  have d: "distinct codes"
    using assms(1) registry_distinct by (simp add: codes_def split: option.splits)
  have "mset (success res @ failed res @ skipped res) = mset codes"
    using run_tracker_outcome [of parse af ts etf_codes w]
    by (simp add: assms(2) outcome_def codes_def add.assoc)
  then have "distinct (success res @ failed res @ skipped res)"
    using d by (metis mset_eq_imp_distinct_iff)
  then show ?thesis by auto
qed

theorem summary_lists_disjoint_witness:
  "distinct [''EMBI'', ''GBI''] \<and>
   fst (run_tracker no_parse plain_affinity calm_turns (Some [''EMBI'', ''GBI'']) empty_world) =
     \<lparr>success = [''EMBI'', ''GBI''], failed = [], skipped = []\<rparr> \<and>
   set (success (fst (run_tracker no_parse plain_affinity calm_turns
                        (Some [''EMBI'', ''GBI'']) empty_world))) \<inter>
   set (skipped (fst (run_tracker no_parse plain_affinity calm_turns
                        (Some [''EMBI'', ''GBI'']) empty_world))) = {}"
proof -
  have h: "case Some [''EMBI'', ''GBI''] of None \<Rightarrow> True | Some cs \<Rightarrow> distinct cs"
    by simp
  have e: "fst (run_tracker no_parse plain_affinity calm_turns (Some [''EMBI'', ''GBI'']) empty_world) =
     \<lparr>success = [''EMBI'', ''GBI''], failed = [], skipped = []\<rparr>"
    by code_simp
  show ?thesis
    using summary_lists_disjoint [OF h refl, of no_parse plain_affinity calm_turns empty_world] e
    by simp
qed

text \<open>
  For every list of codes the claim fails: a code given twice succeeds at its first turn
  and is skipped at its second, where \<open>check_data_exists\<close> finds the rows of the first.
\<close>

theorem repeated_code_in_two_lists:
  "fst (run_tracker no_parse plain_affinity calm_turns (Some [''EMBI'', ''EMBI'']) empty_world) =
     \<lparr>success = [''EMBI''], failed = [], skipped = [''EMBI'']\<rparr>"
  by code_simp

text \<open>
  C3. An ETF whose write ends in an error other than a uniqueness violation is to be
  listed as failed, and the run goes on. The run goes on, but the ETF is listed as
  skipped: \<open>save_to_database\<close> prints "Error saving" and returns False, the same value
  as for "already exists", and \<open>run_tracker\<close> files every False under skipped. Below,
  the engine fails during the write for EMBI (first turn) and not for GBI.
\<close>

theorem write_error_listed_as_skipped:
  "fst (save_to_database plain_affinity True \<lparr>columns = canonical_columns, rows = [sparse_row]\<rparr>
          ''EMBI'' empty_world) = (False, ErrorSaving OperationalError) \<and>
   fst (run_tracker no_parse plain_affinity faulty_turns (Some [''EMBI'', ''GBI'']) empty_world) =
     \<lparr>success = [''GBI''], failed = [], skipped = [''EMBI'']\<rparr>"
  by code_simp

section \<open>Properties of the queries\<close>

subsection \<open>The latest snapshot\<close>

lemma desc_sorted:
  "sorted_wrt (\<lambda>a b. weight_pct b \<le> weight_pct a) (order_by_weight_desc hs)"
proof -
  have "sorted (map weight_pct (sort_key weight_pct (rev hs)))"
    by (rule sorted_sort_key)
  then have "sorted_wrt (\<lambda>a b. weight_pct a \<le> weight_pct b) (sort_key weight_pct (rev hs))"
    by (simp add: sorted_wrt_map)
  then show ?thesis
    by (simp add: order_by_weight_desc_def sort_desc_def sorted_wrt_rev)
qed

lemma mset_sort_desc: "mset (sort_desc f xs) = mset xs"
  by (simp add: sort_desc_def)

lemma set_sort_desc: "set (sort_desc f xs) = set xs"
  by (simp add: sort_desc_def)

lemma length_sort_desc: "length (sort_desc f xs) = length xs"
  by (simp add: sort_desc_def)

lemma desc_mset: "mset (order_by_weight_desc hs) = mset hs"
  by (simp add: order_by_weight_desc_def mset_sort_desc)

lemma set_map_filter_eq: "set (List.map_filter g xs) = {y. \<exists>x\<in>set xs. g x = Some y}"
  by (induction xs) (auto split: option.splits)

lemma max_date_Some:
  assumes "h \<in> set tbl" and "etf_code h = Some code" and "date_of_pull h = Some d"
  shows "\<exists>m. max_date_of_pull code tbl = Some m \<and>
           (\<exists>h'\<in>set tbl. etf_code h' = Some code \<and> date_of_pull h' = Some m) \<and>
           (\<forall>h'\<in>set tbl. etf_code h' = Some code \<longrightarrow>
              (\<forall>d'. date_of_pull h' = Some d' \<longrightarrow> d' \<le> m))"
proof -
  define ds where "ds = List.map_filter date_of_pull (filter (\<lambda>h. etf_code h = Some code) tbl)"
  have set_ds: "set ds = {d'. \<exists>h'\<in>set tbl. etf_code h' = Some code \<and> date_of_pull h' = Some d'}"
    by (auto simp: ds_def set_map_filter_eq)
  then have ne: "ds \<noteq> []" using assms by auto
  then have m: "max_date_of_pull code tbl = Some (Max (set ds))"
    by (cases ds) (simp_all add: max_date_of_pull_def ds_def [symmetric])
  have "Max (set ds) \<in> set ds" using ne by (intro Max_in) simp_all
  moreover have "\<forall>d'\<in>set ds. d' \<le> Max (set ds)" by simp
  ultimately show ?thesis using m set_ds by auto
qed

text \<open>
  C9. For an ETF code with at least one stored record, \<open>get_latest_holdings\<close> returns
  exactly the records of that ETF whose \<open>date_of_pull\<close> is the greatest one among the
  ETF's records (each as often as it is stored), in descending order of \<open>weight_pct\<close>,
  records without weight last. The code is spliced into the SQL text, so the statement
  is about codes without a single quote, as all codes of the registry are.
\<close>

theorem latest_snapshot_exact:
  assumes "quote_free code"
    and "h \<in> set (holdings w)" and "etf_code h = Some code" and "date_of_pull h = Some d"
  shows "\<exists>m rs. fst (get_latest_holdings code w) = Some rs \<and>
           (\<exists>h'\<in>set (holdings w). etf_code h' = Some code \<and> date_of_pull h' = Some m) \<and>
           (\<forall>h'\<in>set (holdings w). etf_code h' = Some code \<longrightarrow>
              (\<forall>d'. date_of_pull h' = Some d' \<longrightarrow> d' \<le> m)) \<and>
           mset rs = mset (filter (\<lambda>h'. etf_code h' = Some code \<and> date_of_pull h' = Some m)
                             (holdings w)) \<and>
           sorted_wrt (\<lambda>a b. weight_pct b \<le> weight_pct a) rs"
proof -
  obtain m where m: "max_date_of_pull code (holdings w) = Some m"
    and ex: "\<exists>h'\<in>set (holdings w). etf_code h' = Some code \<and> date_of_pull h' = Some m"
    and ub: "\<forall>h'\<in>set (holdings w). etf_code h' = Some code \<longrightarrow>
              (\<forall>d'. date_of_pull h' = Some d' \<longrightarrow> d' \<le> m)"
    using max_date_Some [OF assms(2,3,4)] by blast
  define rs where "rs = order_by_weight_desc
      (filter (\<lambda>h'. etf_code h' = Some code \<and> date_of_pull h' = Some m) (holdings w))"
  have "fst (get_latest_holdings code w) = Some rs"
    using assms(1) m by (simp add: get_latest_holdings_def Let_def connect_def rs_def)
  moreover have "mset rs = mset (filter (\<lambda>h'. etf_code h' = Some code \<and> date_of_pull h' = Some m)
                             (holdings w))"
    by (simp add: rs_def desc_mset)
  moreover have "sorted_wrt (\<lambda>a b. weight_pct b \<le> weight_pct a) rs"
    unfolding rs_def by (rule desc_sorted)
  ultimately show ?thesis using ex ub by blast
qed


theorem latest_snapshot_exact_witness:
  "quote_free ''EMBI'' \<and>
   fst (get_latest_holdings ''EMBI'' three_world) =
     Some [stored ''2025-01-02'' ''BRA10Y'' ''BRAZIL'' (Some 3) (Some 7),
           stored ''2025-01-02'' ''MEX10Y'' ''MEXICO'' (Some 2) (Some 6)] \<and>
   (\<exists>m rs. fst (get_latest_holdings ''EMBI'' three_world) = Some rs \<and>
      (\<forall>h'\<in>set (holdings three_world). etf_code h' = Some ''EMBI'' \<longrightarrow>
         (\<forall>d'. date_of_pull h' = Some d' \<longrightarrow> d' \<le> m)) \<and>
      mset rs = mset (filter (\<lambda>h'. etf_code h' = Some ''EMBI'' \<and> date_of_pull h' = Some m)
                        (holdings three_world)) \<and>
      sorted_wrt (\<lambda>a b. weight_pct b \<le> weight_pct a) rs)"
proof -
  define h where "h = stored ''2025-01-01'' ''MEX10Y'' ''MEXICO'' (Some 9) (Some 6)"
  have q: "quote_free ''EMBI''"
    by (simp add: quote_free_def)
  have m: "h \<in> set (holdings three_world)"
    by (simp add: three_world_def h_def)
  have e: "etf_code h = Some ''EMBI''" and d: "date_of_pull h = Some ''2025-01-01''"
    by (simp_all add: h_def stored_def)
  have v: "fst (get_latest_holdings ''EMBI'' three_world) =
     Some [stored ''2025-01-02'' ''BRA10Y'' ''BRAZIL'' (Some 3) (Some 7),
           stored ''2025-01-02'' ''MEX10Y'' ''MEXICO'' (Some 2) (Some 6)]"
    by code_simp
  from latest_snapshot_exact [OF q m e d] obtain m' rs where
    "fst (get_latest_holdings ''EMBI'' three_world) = Some rs"
    "\<forall>h'\<in>set (holdings three_world). etf_code h' = Some ''EMBI'' \<longrightarrow>
         (\<forall>d'. date_of_pull h' = Some d' \<longrightarrow> d' \<le> m')"
    "mset rs = mset (filter (\<lambda>h'. etf_code h' = Some ''EMBI'' \<and> date_of_pull h' = Some m')
                        (holdings three_world))"
    "sorted_wrt (\<lambda>a b. weight_pct b \<le> weight_pct a) rs"
    by blast
  with q v show ?thesis by blast
qed

subsection \<open>The comparison of two dates\<close>

lemma holdings_by_date:
  assumes "quote_free code" and "quote_free date_str"
  shows "get_holdings_by_date code date_str w =
           (Some (order_by_weight_desc (snapshot code date_str w)), w)"
  using assms
  by (simp add: get_holdings_by_date_def snapshot_def Let_def connect_def close_def)

lemma same_key_iff: "same_key a b \<longleftrightarrow> merge_key a = merge_key b"
  by (auto simp: same_key_def merge_key_def)

lemma merge_outer_alt:
  "merge_outer df1 df2 =
     concat (map (\<lambda>a. if filter (same_key a) df2 = [] then [(Some a, None)]
                       else map (\<lambda>b. (Some a, Some b)) (filter (same_key a) df2)) df1)
     @ map (\<lambda>b. (None, Some b)) (filter (\<lambda>b. \<not> list_ex (\<lambda>a. same_key a b) df1) df2)"
proof -
  have "(case xs of [] \<Rightarrow> [(Some a, None)] | b # bs \<Rightarrow> map (\<lambda>b'. (Some a, Some b')) (b # bs)) =
        (if xs = [] then [(Some a, None)] else map (\<lambda>b. (Some a, Some b)) xs)"
    for xs :: "holding list" and a :: holding
    by (cases xs) simp_all
  then show ?thesis by (simp add: merge_outer_def)
qed

lemma set_merge_outer:
  "set (merge_outer df1 df2) =
     {(Some a, Some b) | a b. a \<in> set df1 \<and> b \<in> set df2 \<and> same_key a b} \<union>
     {(Some a, None) | a. a \<in> set df1 \<and> (\<forall>b\<in>set df2. \<not> same_key a b)} \<union>
     {(None, Some b) | b. b \<in> set df2 \<and> (\<forall>a\<in>set df1. \<not> same_key a b)}"
  unfolding merge_outer_alt
  by (auto simp: filter_empty_conv list_ex_iff split: if_splits)

lemma filter_unique:
  assumes "distinct (map f xs)" and "a \<in> set xs"
  shows "filter (\<lambda>b. f a = f b) xs = [a]"
  using assms
proof (induction xs)
  case Nil
  then show ?case by simp
next
  case (Cons x xs)
  show ?case
  proof (cases "x = a")
    case True
    with Cons.prems(1) have "\<forall>b\<in>set xs. f a \<noteq> f b" by auto
    then have "filter (\<lambda>b. f a = f b) xs = []" by (simp add: filter_empty_conv)
    with True show ?thesis by simp
  next
    case False
    with Cons.prems have a: "a \<in> set xs" and d: "distinct (map f xs)" by auto
    from a have "f a \<in> f ` set xs" by (rule imageI)
    with Cons.prems(1) have "f a \<noteq> f x" by auto
    with Cons.IH [OF d a] show ?thesis by simp
  qed
qed

lemma merge_outer_self:
  assumes "distinct (map merge_key xs)"
  shows "merge_outer xs xs = map (\<lambda>a. (Some a, Some a)) xs"
proof -
  have 1: "filter (same_key a) xs = [a]" if "a \<in> set xs" for a
    using filter_unique [OF assms that] by (simp add: same_key_iff [abs_def])
  have 2: "filter (\<lambda>b. \<not> list_ex (\<lambda>a. same_key a b) xs) xs = []"
    by (auto simp: filter_empty_conv list_ex_iff same_key_iff)
  have "concat (map (\<lambda>a. if filter (same_key a) xs = [] then [(Some a, None)]
                       else map (\<lambda>b. (Some a, Some b)) (filter (same_key a) xs)) xs) =
        concat (map (\<lambda>a. [(Some a, Some a)]) xs)"
    by (intro arg_cong [where f = concat] map_cong) (simp_all add: 1)
  also have "\<dots> = map (\<lambda>a. (Some a, Some a)) xs"
    by (induction xs) simp_all
  finally show ?thesis
    unfolding merge_outer_alt by (simp add: 2)
qed

lemma length_filter_perm:
  assumes "mset xs = mset ys"
  shows "length (filter P xs) = length (filter P ys)"
proof -
  have "size (filter_mset P (mset xs)) = size (filter_mset P (mset ys))"
    using assms by simp
  then show ?thesis by (simp only: mset_filter [symmetric] size_mset)
qed


lemma compare_dates_eq:
  assumes "quote_free code" and "quote_free date1" and "quote_free date2"
  shows "fst (compare_dates code date1 date2 w) =
     Some (summarize (sort_desc (\<lambda>c. \<bar>weight_change c\<bar>)
             (map compare_row (merge_outer (order_by_weight_desc (snapshot code date1 w))
                                           (order_by_weight_desc (snapshot code date2 w))))),
           sort_desc (\<lambda>c. \<bar>weight_change c\<bar>)
             (map compare_row (merge_outer (order_by_weight_desc (snapshot code date1 w))
                                           (order_by_weight_desc (snapshot code date2 w)))))"
  using assms by (simp add: compare_dates_def holdings_by_date Let_def)

lemma count_sorted_map:
  assumes "mset xs = mset ys"
  shows "length (filter P (sort_desc k (map g xs))) = length (filter (\<lambda>a. P (g a)) ys)"
proof -
  have "length (filter P (sort_desc k (map g xs))) = length (filter P (map g xs))"
    by (rule length_filter_perm) (rule mset_sort_desc)
  also have "\<dots> = length (filter (\<lambda>a. P (g a)) xs)"
    by (simp add: filter_map comp_def)
  also have "\<dots> = length (filter (\<lambda>a. P (g a)) ys)"
    using assms by (rule length_filter_perm)
  finally show ?thesis .
qed

lemma pair_row_self:
  "weight_change (pair_row a a) = 0"
  "ytm_pct_new (pair_row a a) = ytm_pct_old (pair_row a a)"
  "ytm_change (pair_row a a) = (case ytm_pct_old (pair_row a a) of None \<Rightarrow> None | Some y \<Rightarrow> Some 0)"
  "weight_pct_old (pair_row a a) = weight_pct a"
  "weight_pct_new (pair_row a a) = weight_pct a"
  by (simp_all add: pair_row_def compare_row_def side_def sub_na_def split: option.splits)

lemma desc_set: "set (order_by_weight_desc hs) = set hs"
  by (simp add: order_by_weight_desc_def set_sort_desc)

lemma compare_row_ytm:
  "ytm_pct_old (compare_row p) = None \<Longrightarrow> ytm_change (compare_row p) = None"
  "ytm_pct_new (compare_row p) = None \<Longrightarrow> ytm_change (compare_row p) = None"
  by (cases p; simp add: compare_row_def sub_na_def split: option.splits)+

lemma compare_row_right_only:
  "cmp_ticker (compare_row (None, Some b)) = ticker b"
  "cmp_name (compare_row (None, Some b)) = name b"
  "weight_pct_old (compare_row (None, Some b)) = None"
  "weight_pct_new (compare_row (None, Some b)) = weight_pct b"
  "weight_change (compare_row (None, Some b)) = fillna 0 (weight_pct b)"
  by (simp_all add: compare_row_def side_def fillna_def)

lemma compare_row_left:
  "cmp_ticker (compare_row (Some a, r)) = ticker a"
  "cmp_name (compare_row (Some a, r)) = name a"
  by (simp_all add: compare_row_def)

text \<open>
  C6 (as amended). Let the snapshot of an ETF at a date hold no (ticker, name) key
  twice. Comparing the date with itself gives one row per record, each with
  \<open>weight_change = 0\<close>; \<open>ytm_change\<close> is 0 where the record has a yield and null
  where it has none; the counts of "new" and of "removed" holdings both equal the number
  of records without weight, so they are zero when every record has a weight; the count
  of changed holdings is zero.
\<close>

theorem compare_date_with_itself:
  assumes "quote_free code" and "quote_free date_str"
    and "distinct (map merge_key (snapshot code date_str w))"
  shows "\<exists>counts merged.
           fst (compare_dates code date_str date_str w) = Some (counts, merged) \<and>
           length merged = length (snapshot code date_str w) \<and>
           (\<forall>c\<in>set merged.
              weight_change c = 0 \<and>
              ytm_change c = (case ytm_pct_old c of None \<Rightarrow> None | Some y \<Rightarrow> Some 0)) \<and>
           new_holdings counts =
             length (filter (\<lambda>h. weight_pct h = None) (snapshot code date_str w)) \<and>
           removed_holdings counts =
             length (filter (\<lambda>h. weight_pct h = None) (snapshot code date_str w)) \<and>
           changed_holdings counts = 0"
proof -
  define snap where "snap = snapshot code date_str w"
  define S where "S = order_by_weight_desc snap"
  define merged where
    "merged = sort_desc (\<lambda>c. \<bar>weight_change c\<bar>) (map (\<lambda>a. pair_row a a) S)"
  have perm: "mset S = mset snap" by (simp add: S_def desc_mset)
  then have "mset (map merge_key S) = mset (map merge_key snap)" by simp
  then have "distinct (map merge_key S)"
    using assms(3) by (metis mset_eq_imp_distinct_iff snap_def)
  then have "merge_outer S S = map (\<lambda>a. (Some a, Some a)) S"
    by (rule merge_outer_self)
  then have res: "fst (compare_dates code date_str date_str w) = Some (summarize merged, merged)"
    using compare_dates_eq [OF assms(1,2,2), of w]
    by (simp add: merged_def S_def snap_def comp_def pair_row_def)
  have len: "length merged = length snap"
    using perm by (simp add: merged_def length_sort_desc) (metis size_mset)
  have rows: "\<forall>c\<in>set merged. weight_change c = 0 \<and>
      ytm_change c = (case ytm_pct_old c of None \<Rightarrow> None | Some y \<Rightarrow> Some 0)"
    by (auto simp: merged_def set_sort_desc pair_row_self(1,3))
  have n: "new_holdings (summarize merged) = length (filter (\<lambda>h. weight_pct h = None) snap)"
    unfolding summarize_def merged_def
    using count_sorted_map [OF perm, of "\<lambda>c. weight_pct_old c = None" _ "\<lambda>a. pair_row a a"]
    by (simp add: pair_row_self(4))
  have r: "removed_holdings (summarize merged) = length (filter (\<lambda>h. weight_pct h = None) snap)"
    unfolding summarize_def merged_def
    using count_sorted_map [OF perm, of "\<lambda>c. weight_pct_new c = None" _ "\<lambda>a. pair_row a a"]
    by (simp add: pair_row_self(5))
  have c: "changed_holdings (summarize merged) = 0"
    using rows by (simp add: summarize_def)
  show ?thesis
    using res len rows n r c unfolding snap_def by blast
qed

theorem compare_date_with_itself_witness:
  "quote_free ''EMBI'' \<and> quote_free ''2025-01-02'' \<and>
   distinct (map merge_key (snapshot ''EMBI'' ''2025-01-02'' three_world)) \<and>
   fst (compare_dates ''EMBI'' ''2025-01-02'' ''2025-01-02'' three_world) =
     Some (\<lparr>new_holdings = 0, removed_holdings = 0, changed_holdings = 0\<rparr>,
           [\<lparr>cmp_name = Some ''BRAZIL'', cmp_ticker = Some ''BRA10Y'', location_new = None,
             weight_pct_old = Some 3, weight_pct_new = Some 3, weight_change = 0,
             ytm_pct_old = Some 7, ytm_pct_new = Some 7, ytm_change = Some 0\<rparr>,
            \<lparr>cmp_name = Some ''MEXICO'', cmp_ticker = Some ''MEX10Y'', location_new = None,
             weight_pct_old = Some 2, weight_pct_new = Some 2, weight_change = 0,
             ytm_pct_old = Some 6, ytm_pct_new = Some 6, ytm_change = Some 0\<rparr>]) \<and>
   (\<exists>counts merged.
      fst (compare_dates ''EMBI'' ''2025-01-02'' ''2025-01-02'' three_world) = Some (counts, merged) \<and>
      (\<forall>c\<in>set merged. weight_change c = 0) \<and> changed_holdings counts = 0)"
proof -
  have q: "quote_free ''EMBI''" "quote_free ''2025-01-02''"
    by (simp_all add: quote_free_def)
  have d: "distinct (map merge_key (snapshot ''EMBI'' ''2025-01-02'' three_world))"
    by code_simp
  have v: "fst (compare_dates ''EMBI'' ''2025-01-02'' ''2025-01-02'' three_world) =
     Some (\<lparr>new_holdings = 0, removed_holdings = 0, changed_holdings = 0\<rparr>,
           [\<lparr>cmp_name = Some ''BRAZIL'', cmp_ticker = Some ''BRA10Y'', location_new = None,
             weight_pct_old = Some 3, weight_pct_new = Some 3, weight_change = 0,
             ytm_pct_old = Some 7, ytm_pct_new = Some 7, ytm_change = Some 0\<rparr>,
            \<lparr>cmp_name = Some ''MEXICO'', cmp_ticker = Some ''MEX10Y'', location_new = None,
             weight_pct_old = Some 2, weight_pct_new = Some 2, weight_change = 0,
             ytm_pct_old = Some 6, ytm_pct_new = Some 6, ytm_change = Some 0\<rparr>])"
    by code_simp
  from compare_date_with_itself [OF q d] obtain counts merged where
    "fst (compare_dates ''EMBI'' ''2025-01-02'' ''2025-01-02'' three_world) = Some (counts, merged)"
    "\<forall>c\<in>set merged. weight_change c = 0" "changed_holdings counts = 0"
    by blast
  with q d v show ?thesis by blast
qed

text \<open>
  As worded the claim fails in three ways. A record without yield has a null
  \<open>ytm_change\<close>, not 0; a record without weight is counted as new and as removed
  (first store). Two records with the same key, which the uniqueness constraint admits
  when the ticker is NULL, are paired crosswise by the merge and give rows with a
  weight change other than 0 (second store).
\<close>

theorem same_date_comparison_not_all_zero:
  "(case fst (compare_dates ''EMBI'' ''2025-01-02'' ''2025-01-02'' gap_world) of
      None \<Rightarrow> False
    | Some (counts, merged) \<Rightarrow>
        new_holdings counts = 1 \<and> removed_holdings counts = 1 \<and>
        \<lparr>cmp_name = Some ''USD CASH'', cmp_ticker = Some ''CASH'', location_new = None,
         weight_pct_old = None, weight_pct_new = None, weight_change = 0,
         ytm_pct_old = None, ytm_pct_new = None, ytm_change = None\<rparr> \<in> set merged) \<and>
   (case fst (compare_dates ''EMBI'' ''2025-01-02'' ''2025-01-02'' issuer_world) of
      None \<Rightarrow> False
    | Some (counts, merged) \<Rightarrow>
        changed_holdings counts = 2 \<and>
        \<lparr>cmp_name = Some ''MEXICO'', cmp_ticker = None, location_new = None,
         weight_pct_old = Some 3, weight_pct_new = Some 5, weight_change = 2,
         ytm_pct_old = Some 7, ytm_pct_new = Some 6, ytm_change = Some (- 1)\<rparr> \<in> set merged)"
  by code_simp

text \<open>
  C7. A record present only in the snapshot of the second date, with weight \<open>wt\<close>,
  gives a row with the old weight null, replaced by 0 in the difference, so that
  \<open>weight_change = wt\<close>; every row under its key has a null old weight, and these
  rows are among those the "new" count counts. \<open>ytm_change\<close> is null whenever the
  yield of either side is null or absent.
\<close>

theorem new_holding_compared:
  assumes "quote_free code" and "quote_free date1" and "quote_free date2"
    and "b \<in> set (snapshot code date2 w)" and "weight_pct b = Some wt"
    and "\<forall>a\<in>set (snapshot code date1 w). \<not> same_key a b"
  shows "\<exists>counts merged.
           fst (compare_dates code date1 date2 w) = Some (counts, merged) \<and>
           (\<exists>c\<in>set merged.
              cmp_ticker c = ticker b \<and> cmp_name c = name b \<and> weight_pct_old c = None \<and>
              weight_pct_new c = Some wt \<and> weight_change c = wt) \<and>
           (\<forall>c\<in>set merged.
              cmp_ticker c = ticker b \<and> cmp_name c = name b \<longrightarrow>
              weight_pct_old c = None \<and> weight_change c = fillna 0 (weight_pct_new c)) \<and>
           new_holdings counts = length (filter (\<lambda>c. weight_pct_old c = None) merged) \<and>
           1 \<le> new_holdings counts \<and>
           (\<forall>c\<in>set merged.
              ytm_pct_old c = None \<or> ytm_pct_new c = None \<longrightarrow> ytm_change c = None)"
proof -
  define S1 where "S1 = order_by_weight_desc (snapshot code date1 w)"
  define S2 where "S2 = order_by_weight_desc (snapshot code date2 w)"
  define merged where
    "merged = sort_desc (\<lambda>c. \<bar>weight_change c\<bar>) (map compare_row (merge_outer S1 S2))"
  have res: "fst (compare_dates code date1 date2 w) = Some (summarize merged, merged)"
    using compare_dates_eq [OF assms(1,2,3), of w] by (simp add: merged_def S1_def S2_def)
  have set_merged: "set merged = compare_row ` set (merge_outer S1 S2)"
    by (simp add: merged_def set_sort_desc)
  have b2: "b \<in> set S2" using assms(4) by (simp add: S2_def desc_set)
  have no1: "\<forall>a\<in>set S1. \<not> same_key a b" using assms(6) by (simp add: S1_def desc_set)
  have "(None, Some b) \<in> set (merge_outer S1 S2)"
    using b2 no1 by (simp add: set_merge_outer)
  then have mem: "compare_row (None, Some b) \<in> set merged"
    unfolding set_merged by (rule imageI)
  have first: "\<exists>c\<in>set merged.
      cmp_ticker c = ticker b \<and> cmp_name c = name b \<and> weight_pct_old c = None \<and>
      weight_pct_new c = Some wt \<and> weight_change c = wt"
    using mem assms(5) by (intro bexI [of _ "compare_row (None, Some b)"])
      (simp_all add: compare_row_right_only fillna_def)
  have second: "\<forall>c\<in>set merged.
      cmp_ticker c = ticker b \<and> cmp_name c = name b \<longrightarrow>
      weight_pct_old c = None \<and> weight_change c = fillna 0 (weight_pct_new c)"
  proof (intro ballI impI)
    fix c
    assume c: "c \<in> set merged" and k: "cmp_ticker c = ticker b \<and> cmp_name c = name b"
    from c obtain p where p: "p \<in> set (merge_outer S1 S2)" and cp: "c = compare_row p"
      unfolding set_merged by blast
    show "weight_pct_old c = None \<and> weight_change c = fillna 0 (weight_pct_new c)"
    proof (cases "fst p")
      case None
      with p obtain b' where "p = (None, Some b')"
        by (auto simp: set_merge_outer)
      then show ?thesis by (simp add: cp compare_row_right_only)
    next
      case (Some a)
      then obtain r where pr: "p = (Some a, r)" by (cases p) simp
      with p have "a \<in> set S1" by (auto simp: set_merge_outer)
      moreover have "same_key a b"
        using k by (simp add: cp pr compare_row_left same_key_def)
      ultimately show ?thesis using no1 by blast
    qed
  qed
  have count: "new_holdings (summarize merged) = length (filter (\<lambda>c. weight_pct_old c = None) merged)"
    by (simp add: summarize_def)
  have "compare_row (None, Some b) \<in> set (filter (\<lambda>c. weight_pct_old c = None) merged)"
    using mem by (simp add: compare_row_right_only)
  then have "0 < length (filter (\<lambda>c. weight_pct_old c = None) merged)"
    by (rule length_pos_if_in_set)
  then have pos: "1 \<le> new_holdings (summarize merged)"
    unfolding count by linarith
  have ytm: "\<forall>c\<in>set merged.
      ytm_pct_old c = None \<or> ytm_pct_new c = None \<longrightarrow> ytm_change c = None"
    unfolding set_merged by (auto simp: compare_row_ytm)
  show ?thesis
    using res first second count pos ytm by blast
qed

theorem new_holding_compared_witness:
  "quote_free ''EMBI'' \<and> quote_free ''2025-01-01'' \<and> quote_free ''2025-01-02'' \<and>
   stored ''2025-01-02'' ''BRA10Y'' ''BRAZIL'' (Some 5) None
     \<in> set (snapshot ''EMBI'' ''2025-01-02'' five_world) \<and>
   fst (compare_dates ''EMBI'' ''2025-01-01'' ''2025-01-02'' five_world) =
     Some (\<lparr>new_holdings = 1, removed_holdings = 0, changed_holdings = 2\<rparr>,
           [\<lparr>cmp_name = Some ''MEXICO'', cmp_ticker = Some ''MEX10Y'', location_new = None,
             weight_pct_old = Some 9, weight_pct_new = Some 2, weight_change = - 7,
             ytm_pct_old = Some 6, ytm_pct_new = Some 6, ytm_change = Some 0\<rparr>,
            \<lparr>cmp_name = Some ''BRAZIL'', cmp_ticker = Some ''BRA10Y'', location_new = None,
             weight_pct_old = None, weight_pct_new = Some 5, weight_change = 5,
             ytm_pct_old = None, ytm_pct_new = None, ytm_change = None\<rparr>]) \<and>
   (\<exists>counts merged.
      fst (compare_dates ''EMBI'' ''2025-01-01'' ''2025-01-02'' five_world) = Some (counts, merged) \<and>
      (\<exists>c\<in>set merged. cmp_ticker c = Some ''BRA10Y'' \<and> weight_pct_old c = None \<and>
                        weight_change c = 5) \<and>
      1 \<le> new_holdings counts)"
proof -
  define b where "b = stored ''2025-01-02'' ''BRA10Y'' ''BRAZIL'' (Some 5) None"
  have q: "quote_free ''EMBI''" "quote_free ''2025-01-01''" "quote_free ''2025-01-02''"
    by (simp_all add: quote_free_def)
  have m: "b \<in> set (snapshot ''EMBI'' ''2025-01-02'' five_world)"
    unfolding b_def by code_simp
  have wt: "weight_pct b = Some 5" and t: "ticker b = Some ''BRA10Y''"
    by (simp_all add: b_def stored_def)
  have n: "\<forall>a\<in>set (snapshot ''EMBI'' ''2025-01-01'' five_world). \<not> same_key a b"
    unfolding b_def by code_simp
  have v: "fst (compare_dates ''EMBI'' ''2025-01-01'' ''2025-01-02'' five_world) =
     Some (\<lparr>new_holdings = 1, removed_holdings = 0, changed_holdings = 2\<rparr>,
           [\<lparr>cmp_name = Some ''MEXICO'', cmp_ticker = Some ''MEX10Y'', location_new = None,
             weight_pct_old = Some 9, weight_pct_new = Some 2, weight_change = - 7,
             ytm_pct_old = Some 6, ytm_pct_new = Some 6, ytm_change = Some 0\<rparr>,
            \<lparr>cmp_name = Some ''BRAZIL'', cmp_ticker = Some ''BRA10Y'', location_new = None,
             weight_pct_old = None, weight_pct_new = Some 5, weight_change = 5,
             ytm_pct_old = None, ytm_pct_new = None, ytm_change = None\<rparr>])"
    by code_simp
  from new_holding_compared [OF q m wt n] obtain counts merged where
    "fst (compare_dates ''EMBI'' ''2025-01-01'' ''2025-01-02'' five_world) = Some (counts, merged)"
    "\<exists>c\<in>set merged. cmp_ticker c = ticker b \<and> weight_pct_old c = None \<and> weight_change c = 5"
    "1 \<le> new_holdings counts"
    by blast
  with q m v t show ?thesis unfolding b_def by auto
qed

end
